theory Spec2Isabelle
  imports Complex_Main "HOL-Library.AList"
begin

section \<open>The interaction metrics recorder of main.py\<close>

text \<open>
  This theory embeds the class \<open>VoiceAgentMetrics\<close> of \<open>main.py\<close>: the recorder that
  stores one dictionary per conversational turn, derives the per-turn and per-session timing
  metrics, and exports them as a CSV file and a JSON file.

  Conventions of the embedding.
  \<^item> A Python dictionary is an association list in insertion order; \<open>d[k] = v\<close> is
    \<open>AList.update\<close> (an existing key keeps its place, a new key goes to the end) and
    \<open>d[k]\<close> is \<open>dict_get\<close>, which raises \<open>KeyError\<close> on a missing key.
  \<^item> The values of a dictionary are \<open>None\<close>, numbers and strings, the kinds the repository
    stores in a record or a summary. The numbers (Python's \<open>float\<close> and \<open>int\<close>) are a type
    parameter \<open>'f\<close>, and the arithmetic the code applies to them, \<open>a - b\<close>, \<open>sum\<close>,
    \<open>a / b\<close>, \<open>round(x, n)\<close>, the truth value of a number and the value of an integer
    literal, is an argument of the model, of type \<open>'f arith\<close>. What is proved for every
    arithmetic holds for the doubles of the interpreter, their rounding, infinities and
    summation algorithm included. The arithmetic \<open>exact\<close> of the real numbers, with
    \<open>round\<close> rounding the exact value to \<open>n\<close> decimals, ties to even, runs the examples,
    whose timestamps are binary fractions, which doubles subtract and add without error.
  \<^item> Every method returns its outcome (the returned value or the exception raised) together
    with the state it leaves behind; a method that raises half-way leaves the mutations made
    so far in that state.
  \<^item> The wall clock (\<open>time.time()\<close>) is an argument of the methods that read it.
  \<^item> The state carries, besides the attributes of the object, the records handed to
    \<open>logging\<close> and the files written. A CSV file is kept as its header and its rows of
    cells and a JSON file as the document dumped, not as text. Writing a file always succeeds,
    and the directory \<open>logs\<close> that \<open>__init__\<close> creates is not modelled.
  \<^item> Each entry of \<open>self.interactions\<close> is a dictionary of its own (every caller in the
    repository passes a fresh dictionary literal to \<open>log_interaction\<close>), so the list of
    dictionaries is a list of values.
\<close>

subsection \<open>Python values, dictionaries and exceptions\<close>

datatype 'f pyval = PNone | Num 'f | Str string

datatype py_error = KeyError string | TypeError | ValueError

type_synonym 'f pydict = "(string \<times> 'f pyval) list"

definition dict_get :: "'f pydict \<Rightarrow> string \<Rightarrow> py_error + 'f pyval" where
  "dict_get d k = (case map_of d k of None \<Rightarrow> Inl (KeyError k) | Some v \<Rightarrow> Inr v)"

definition dict_set :: "string \<Rightarrow> 'f pyval \<Rightarrow> 'f pydict \<Rightarrow> 'f pydict" where
  "dict_set k v d = AList.update k v d"

text \<open>The arithmetic of the interpreter on numbers: \<open>num_sub a b\<close> is \<open>a - b\<close>,
  \<open>num_sum xs\<close> is \<open>sum(xs)\<close>, \<open>num_div a b\<close> is \<open>a / b\<close> for \<open>b\<close> not zero,
  \<open>num_round x n\<close> is \<open>round(x, n)\<close>, \<open>num_bool x\<close> is the truth value of \<open>x\<close> and
  \<open>num_int i\<close> is the integer \<open>i\<close> as a number.\<close>

record 'f arith =
  num_sub :: "'f \<Rightarrow> 'f \<Rightarrow> 'f"
  num_sum :: "'f list \<Rightarrow> 'f"
  num_div :: "'f \<Rightarrow> 'f \<Rightarrow> 'f"
  num_round :: "'f \<Rightarrow> nat \<Rightarrow> 'f"
  num_bool :: "'f \<Rightarrow> bool"
  num_int :: "int \<Rightarrow> 'f"

text \<open>\<open>a - b\<close>: defined on two numbers, \<open>TypeError\<close> on \<open>None\<close> and on strings.\<close>

fun py_sub :: "'f arith \<Rightarrow> 'f pyval \<Rightarrow> 'f pyval \<Rightarrow> py_error + 'f pyval" where
  "py_sub ar (Num a) (Num b) = Inr (Num (num_sub ar a b))"
| "py_sub ar _ _ = Inl TypeError"

text \<open>\<open>round(x, n)\<close>: defined on a number, \<open>TypeError\<close> on \<open>None\<close> and on strings.\<close>

fun py_round :: "'f arith \<Rightarrow> 'f pyval \<Rightarrow> nat \<Rightarrow> py_error + 'f pyval" where
  "py_round ar (Num x) n = Inr (Num (num_round ar x n))"
| "py_round ar _ _ = Inl TypeError"

text \<open>An attribute that holds \<open>None\<close> or a float, read as a Python value.\<close>

fun opt_val :: "'f option \<Rightarrow> 'f pyval" where
  "opt_val None = PNone"
| "opt_val (Some t) = Num t"

text \<open>The truth value of such an attribute: false for \<open>None\<close> and for a number that is
  false (\<open>0.0\<close>).\<close>

fun opt_bool :: "'f arith \<Rightarrow> 'f option \<Rightarrow> bool" where
  "opt_bool ar None = False"
| "opt_bool ar (Some t) = num_bool ar t"

subsection \<open>The recorder and its surroundings\<close>

datatype log_level = INFO | WARNING

text \<open>A logging call: the level, the literal text of the f-string and the value interpolated
  at its end, if any.\<close>

type_synonym 'f log_entry = "log_level \<times> string \<times> 'f pyval option"

datatype 'f file_content =
    CsvFile "string list" "'f pyval list list"
  | JsonFile "'f pydict option" "'f pydict list"

record 'f recorder =
  session_start_time :: "'f option"
  session_end_time :: "'f option"
  interactions :: "'f pydict list"
  session_id :: string
  log :: "'f log_entry list"
  files :: "(string \<times> 'f file_content) list"

text \<open>\<open>self.logs_dir\<close> is assigned the literal \<open>"logs"\<close> in \<open>__init__\<close> and nowhere else.\<close>

definition logs_dir :: string where
  "logs_dir = ''logs''"

text \<open>\<open>os.path.join\<close> of two components (POSIX).\<close>

definition path_join :: "string \<Rightarrow> string \<Rightarrow> string" where
  "path_join a b =
     (if b \<noteq> [] \<and> hd b = CHR ''/'' then b
      else if a = [] \<or> last a = CHR ''/'' then a @ b
      else a @ ''/'' @ b)"

text \<open>\<open>__init__\<close>; the session identifier is formatted from the creation time by the caller
  of the model.\<close>

definition init :: "string \<Rightarrow> 'f recorder" where
  "init sid = \<lparr> session_start_time = None, session_end_time = None, interactions = [],
     session_id = sid, log = [], files = [] \<rparr>"

definition start_session :: "'f \<Rightarrow> 'f recorder \<Rightarrow> 'f recorder" where
  "start_session now s =
     s\<lparr> session_start_time := Some now,
        log := log s @ [(INFO, ''[Metrics] Session started: '', Some (Str (session_id s)))] \<rparr>"

definition end_session :: "'f \<Rightarrow> 'f recorder \<Rightarrow> 'f recorder" where
  "end_session now s =
     s\<lparr> session_end_time := Some now,
        log := log s @ [(INFO, ''[Metrics] Session ended: '', Some (Str (session_id s)))] \<rparr>"

text \<open>\<open>log_interaction\<close>: stamp, append, then format the log message, which reads
  \<open>interaction_data['interaction_id']\<close>.\<close>

definition log_interaction :: "'f pydict \<Rightarrow> 'f recorder \<Rightarrow> (py_error + unit) \<times> 'f recorder" where
  "log_interaction interaction_data s =
     (let d = dict_set ''session_id'' (Str (session_id s)) interaction_data;
          s1 = s\<lparr> interactions := interactions s @ [d] \<rparr>
      in (case dict_get d ''interaction_id'' of
            Inl e \<Rightarrow> (Inl e, s1)
          | Inr v \<Rightarrow>
              (Inr (), s1\<lparr> log := log s1 @ [(INFO, ''[Metrics] Logged interaction: '', Some v)] \<rparr>)))"

subsection \<open>calculate_metrics\<close>

text \<open>\<open>round(interaction['response_start_time'] - interaction['speech_end_time'], 3)\<close>\<close>

definition idle_expr :: "'f arith \<Rightarrow> 'f pydict \<Rightarrow> py_error + 'f pyval" where
  "idle_expr ar r =
     (case dict_get r ''response_start_time'' of Inl e \<Rightarrow> Inl e | Inr a \<Rightarrow>
       (case dict_get r ''speech_end_time'' of Inl e \<Rightarrow> Inl e | Inr b \<Rightarrow>
         (case py_sub ar a b of Inl e \<Rightarrow> Inl e | Inr d \<Rightarrow> py_round ar d 3)))"

text \<open>The waiting time of a record: \<open>prev\<close> is \<open>None\<close> for \<open>i == 0\<close> and
  \<open>self.interactions[i-1]\<close> otherwise.\<close>

definition wait_expr :: "'f arith \<Rightarrow> 'f option \<Rightarrow> 'f pydict option \<Rightarrow> 'f pydict \<Rightarrow> py_error + 'f pyval" where
  "wait_expr ar start prev r =
     (case dict_get r ''speech_start_time'' of Inl e \<Rightarrow> Inl e | Inr a \<Rightarrow>
       (case (case prev of None \<Rightarrow> Inr (opt_val start)
                         | Some p \<Rightarrow> dict_get p ''agent_response_end_time'') of
          Inl e \<Rightarrow> Inl e
        | Inr b \<Rightarrow> (case py_sub ar a b of Inl e \<Rightarrow> Inl e | Inr d \<Rightarrow> py_round ar d 3)))"

text \<open>The loop over \<open>enumerate(self.interactions)\<close>. The result is the exception that stopped
  the loop, if any, and the list as the loop left it.\<close>

fun calc_loop ::
  "'f arith \<Rightarrow> 'f option \<Rightarrow> 'f pydict option \<Rightarrow> 'f pydict list \<Rightarrow> py_error option \<times> 'f pydict list" where
  "calc_loop ar start prev [] = (None, [])"
| "calc_loop ar start prev (r # rest) =
     (case idle_expr ar r of
        Inl e \<Rightarrow> (Some e, r # rest)
      | Inr idle \<Rightarrow>
         (let r1 = dict_set ''agent_idle_time_per_question'' idle r
          in (case wait_expr ar start prev r1 of
                Inl e \<Rightarrow> (Some e, r1 # rest)
              | Inr w \<Rightarrow>
                 (let r2 = dict_set ''user_response_waiting_time'' w r1;
                      (err, rest') = calc_loop ar start (Some r2) rest
                  in (err, r2 # rest')))))"

text \<open>The values \<open>sum(i[k] for i in self.interactions)\<close> adds up, in the order it meets
  them: the generator looks \<open>k\<close> up in a record (\<open>KeyError\<close>), \<open>sum\<close> adds the value to
  its running total (\<open>TypeError\<close> unless it is a number), and only then the next record is
  looked at.\<close>

fun field_values :: "string \<Rightarrow> 'f pydict list \<Rightarrow> py_error + 'f list" where
  "field_values k [] = Inr []"
| "field_values k (r # rs) =
     (case dict_get r k of
        Inl e \<Rightarrow> Inl e
      | Inr (Num x) \<Rightarrow> (case field_values k rs of Inl e \<Rightarrow> Inl e | Inr xs \<Rightarrow> Inr (x # xs))
      | Inr _ \<Rightarrow> Inl TypeError)"

definition sum_field :: "'f arith \<Rightarrow> string \<Rightarrow> 'f pydict list \<Rightarrow> py_error + 'f" where
  "sum_field ar k rs =
     (case field_values k rs of Inl e \<Rightarrow> Inl e | Inr xs \<Rightarrow> Inr (num_sum ar xs))"

text \<open>The session duration entry of the summary; the test is Python's truth value of
  \<open>self.session_end_time\<close>.\<close>

definition session_duration :: "'f arith \<Rightarrow> 'f option \<Rightarrow> 'f option \<Rightarrow> py_error + 'f pyval" where
  "session_duration ar start en =
     (if opt_bool ar en
      then (case py_sub ar (opt_val en) (opt_val start) of
              Inl e \<Rightarrow> Inl e
            | Inr d \<Rightarrow> py_round ar d 3)
      else Inr (Num (num_int ar 0)))"

definition build_summary :: "'f arith \<Rightarrow> 'f recorder \<Rightarrow> py_error + 'f pydict" where
  "build_summary ar s =
     (case sum_field ar ''user_speaking_time'' (interactions s) of
        Inl e \<Rightarrow> Inl e
      | Inr total_user_speaking_time \<Rightarrow>
     (case sum_field ar ''agent_reply_time'' (interactions s) of
        Inl e \<Rightarrow> Inl e
      | Inr total_agent_reply_time \<Rightarrow>
     (case sum_field ar ''agent_idle_time_per_question'' (interactions s) of
        Inl e \<Rightarrow> Inl e
      | Inr total_agent_idle_time \<Rightarrow>
     (let num_questions = num_int ar (int (length (interactions s)))
      in (case session_duration ar (session_start_time s) (session_end_time s) of
            Inl e \<Rightarrow> Inl e
          | Inr duration \<Rightarrow>
             Inr [(''session_id'', Str (session_id s)),
                  (''total_questions'', Num num_questions),
                  (''total_user_speaking_time'', Num (num_round ar total_user_speaking_time 3)),
                  (''average_user_speaking_time'',
                     Num (num_round ar (num_div ar total_user_speaking_time num_questions) 3)),
                  (''total_agent_reply_time'', Num (num_round ar total_agent_reply_time 3)),
                  (''average_agent_reply_time'',
                     Num (num_round ar (num_div ar total_agent_reply_time num_questions) 3)),
                  (''total_agent_idle_time'', Num (num_round ar total_agent_idle_time 3)),
                  (''average_agent_idle_time'',
                     Num (num_round ar (num_div ar total_agent_idle_time num_questions) 3)),
                  (''total_voice_agent_response_time_during_start_end_call'', duration),
                  (''session_start_time'', opt_val (session_start_time s)),
                  (''session_end_time'', opt_val (session_end_time s))])))))"

definition calculate_metrics :: "'f arith \<Rightarrow> 'f recorder \<Rightarrow> (py_error + 'f pydict option) \<times> 'f recorder" where
  "calculate_metrics ar s =
     (if interactions s = []
      then (Inr None, s\<lparr> log := log s @ [(WARNING, ''[Metrics] No interactions recorded'', None)] \<rparr>)
      else (case calc_loop ar (session_start_time s) None (interactions s) of
              (Some e, rs) \<Rightarrow> (Inl e, s\<lparr> interactions := rs \<rparr>)
            | (None, rs) \<Rightarrow>
               (let s1 = s\<lparr> interactions := rs \<rparr>
                in (case build_summary ar s1 of
                      Inl e \<Rightarrow> (Inl e, s1)
                    | Inr summary \<Rightarrow> (Inr (Some summary), s1)))))"

subsection \<open>The exports\<close>

definition fieldnames :: "string list" where
  "fieldnames =
     [''session_id'', ''timestamp'', ''interaction_id'', ''speech_start_time'', ''speech_end_time'',
      ''response_start_time'', ''agent_response_end_time'', ''user_speaking_time'',
      ''agent_reply_time'', ''user_response_waiting_time'', ''agent_idle_time_per_question'']"

text \<open>\<open>csv.DictWriter._dict_to_list\<close> with the defaults \<open>restval=''\<close> and
  \<open>extrasaction='raise'\<close>: a key outside the field names raises \<open>ValueError\<close>, a missing
  key gives the empty string.\<close>

definition dict_to_list :: "string list \<Rightarrow> 'f pydict \<Rightarrow> py_error + 'f pyval list" where
  "dict_to_list names rowdict =
     (if \<exists>k \<in> set (map fst rowdict). k \<notin> set names then Inl ValueError
      else Inr (map (\<lambda>k. case map_of rowdict k of None \<Rightarrow> Str [] | Some v \<Rightarrow> v) names))"

text \<open>\<open>writerows\<close>: the rows are converted and written one by one; \<open>written\<close> holds the rows
  already in the file.\<close>

fun writerows ::
  "string list \<Rightarrow> 'f pyval list list \<Rightarrow> 'f pydict list \<Rightarrow> py_error option \<times> 'f pyval list list" where
  "writerows names written [] = (None, written)"
| "writerows names written (r # rs) =
     (case dict_to_list names r of
        Inl e \<Rightarrow> (Some e, written)
      | Inr row \<Rightarrow> writerows names (written @ [row]) rs)"

definition csv_path :: "'f recorder \<Rightarrow> string" where
  "csv_path s = path_join logs_dir (''voice_agent_metrics_'' @ session_id s @ ''.csv'')"

definition json_path :: "'f recorder \<Rightarrow> string" where
  "json_path s = path_join logs_dir (''voice_agent_metrics_'' @ session_id s @ ''.json'')"

definition save_csv :: "'f recorder \<Rightarrow> (py_error + string option) \<times> 'f recorder" where
  "save_csv s =
     (if interactions s = []
      then (Inr None, s\<lparr> log := log s @ [(WARNING, ''[Metrics] No interactions to save to CSV'', None)] \<rparr>)
      else (let csv_file = csv_path s
            in (case writerows fieldnames [] (interactions s) of
                  (Some e, rows) \<Rightarrow>
                    (Inl e, s\<lparr> files := AList.update csv_file (CsvFile fieldnames rows) (files s) \<rparr>)
                | (None, rows) \<Rightarrow>
                    (Inr (Some csv_file),
                     s\<lparr> files := AList.update csv_file (CsvFile fieldnames rows) (files s),
                        log := log s @ [(INFO, ''[Metrics] CSV saved: '', Some (Str csv_file))] \<rparr>))))"

definition save_json :: "'f arith \<Rightarrow> 'f recorder \<Rightarrow> (py_error + string option) \<times> 'f recorder" where
  "save_json ar s =
     (let json_file = json_path s
      in (case calculate_metrics ar s of
            (Inl e, s1) \<Rightarrow> (Inl e, s1)
          | (Inr summary, s1) \<Rightarrow>
              (Inr (Some json_file),
               s1\<lparr> files := AList.update json_file (JsonFile summary (interactions s1)) (files s1),
                   log := log s1 @ [(INFO, ''[Metrics] JSON saved: '', Some (Str json_file))] \<rparr>)))"

subsection \<open>The arithmetic of the examples\<close>

text \<open>Rounding of an exact value to \<open>n\<close> decimals, ties to the even neighbour.\<close>

definition round_ndigits :: "real \<Rightarrow> nat \<Rightarrow> real" where
  "round_ndigits x n =
     (let s = x * 10 ^ n; f = \<lfloor>s\<rfloor>; d = s - of_int f
      in (if d < 1 / 2 then of_int f
          else if 1 / 2 < d then of_int (f + 1)
          else if even f then of_int f else of_int (f + 1)) / 10 ^ n)"

definition exact :: "real arith" where
  "exact = \<lparr> num_sub = (\<lambda>a b. a - b), num_sum = sum_list, num_div = (\<lambda>a b. a / b),
     num_round = round_ndigits, num_bool = (\<lambda>x. x \<noteq> 0), num_int = of_int \<rparr>"

subsection \<open>Reading the numeric fields of a record\<close>

text \<open>\<open>is_num r k\<close> says that record \<open>r\<close> holds a number under key \<open>k\<close>, and
  \<open>num_field r k\<close> is that number. A list of records is \<open>pass_typed\<close> when it has what the
  loop of \<open>calculate_metrics\<close> reads: in every record numbers under \<open>response_start_time\<close>,
  \<open>speech_end_time\<close> and \<open>speech_start_time\<close>, and in every record but the last a number
  under \<open>agent_response_end_time\<close>.\<close>

definition is_num :: "'f pydict \<Rightarrow> string \<Rightarrow> bool" where
  "is_num r k = (case map_of r k of Some (Num x) \<Rightarrow> True | _ \<Rightarrow> False)"

fun the_num :: "'f pyval option \<Rightarrow> 'f" where
  "the_num (Some (Num x)) = x"

definition num_field :: "'f pydict \<Rightarrow> string \<Rightarrow> 'f" where
  "num_field r k = the_num (map_of r k)"

definition stamped :: "'f pydict \<Rightarrow> bool" where
  "stamped r \<longleftrightarrow>
     is_num r ''response_start_time'' \<and> is_num r ''speech_end_time'' \<and>
     is_num r ''speech_start_time''"

fun pass_typed :: "'f pydict list \<Rightarrow> bool" where
  "pass_typed [] = True"
| "pass_typed [r] = stamped r"
| "pass_typed (r # r' # rs) =
     (stamped r \<and> is_num r ''agent_response_end_time'' \<and> pass_typed (r' # rs))"

text \<open>What one pass of the loop makes of a record, \<open>b\<close> being the time its waiting time is
  measured from; and of a list of them.\<close>

definition recomputed :: "'f arith \<Rightarrow> 'f \<Rightarrow> 'f pydict \<Rightarrow> 'f pydict" where
  "recomputed ar b r =
     dict_set ''user_response_waiting_time''
       (Num (num_round ar (num_sub ar (num_field r ''speech_start_time'') b) 3))
       (dict_set ''agent_idle_time_per_question''
          (Num (num_round ar
             (num_sub ar (num_field r ''response_start_time'') (num_field r ''speech_end_time'')) 3)) r)"

fun recomputed_list :: "'f arith \<Rightarrow> 'f \<Rightarrow> 'f pydict list \<Rightarrow> 'f pydict list" where
  "recomputed_list ar b [] = []"
| "recomputed_list ar b (r # rs) =
     recomputed ar b r # recomputed_list ar (num_field r ''agent_response_end_time'') rs"

subsection \<open>Sessions to run the model on\<close>

text \<open>Two turns as \<open>Assistant.on_message\<close> builds them, with the derived fields still at
  their placeholder \<open>0\<close>, in a session started at \<open>t = 1000\<close>.\<close>

definition turn1 :: "real pydict" where
  "turn1 =
     [(''timestamp'', Str ''2025-01-01T12:00:04''), (''interaction_id'', Str ''call_1''),
      (''speech_start_time'', Num (2001 / 2)), (''speech_end_time'', Num 1002),
      (''response_start_time'', Num 1002), (''agent_response_end_time'', Num 1004),
      (''user_speaking_time'', Num (3 / 2)), (''agent_reply_time'', Num 2),
      (''user_response_waiting_time'', Num 0), (''agent_idle_time_per_question'', Num 0)]"

definition turn2 :: "real pydict" where
  "turn2 =
     [(''timestamp'', Str ''2025-01-01T12:00:13''), (''interaction_id'', Str ''call_2''),
      (''speech_start_time'', Num 1010), (''speech_end_time'', Num 1011),
      (''response_start_time'', Num (2023 / 2)), (''agent_response_end_time'', Num 1013),
      (''user_speaking_time'', Num 1), (''agent_reply_time'', Num (3 / 2)),
      (''user_response_waiting_time'', Num 0), (''agent_idle_time_per_question'', Num 0)]"

definition started :: "real recorder" where
  "started = start_session 1000 (init ''session_20250101_120000'')"

definition one_turn :: "real recorder" where
  "one_turn = snd (log_interaction turn1 started)"

definition two_turns :: "real recorder" where
  "two_turns = snd (log_interaction turn2 one_turn)"

text \<open>The session of two turns, ended at \<open>t = 1020\<close>.\<close>

definition ended :: "real recorder" where
  "ended = end_session 1020 two_turns"

text \<open>Two turns whose timestamps and durations are binary fractions off the grid of
  thousandths, so that every rounding of the pass and of the summary moves its argument:
  the first turn starts at \<open>1000.50048828125\<close>, is answered from \<open>1002.250244140625\<close> and
  carries the unrounded durations \<open>1.49951171875\<close> and \<open>1.749755859375\<close>. The
  session is started at \<open>1000\<close> and ended at \<open>1020.00048828125\<close>.\<close>

definition fine1 :: "real pydict" where
  "fine1 =
     [(''timestamp'', Str ''2025-01-01T12:00:04''), (''interaction_id'', Str ''call_1''),
      (''speech_start_time'', Num (2049025 / 2048)), (''speech_end_time'', Num 1002),
      (''response_start_time'', Num (4105217 / 4096)), (''agent_response_end_time'', Num 1004),
      (''user_speaking_time'', Num (3071 / 2048)), (''agent_reply_time'', Num (7167 / 4096)),
      (''user_response_waiting_time'', Num 0), (''agent_idle_time_per_question'', Num 0)]"

definition fine2 :: "real pydict" where
  "fine2 =
     [(''timestamp'', Str ''2025-01-01T12:00:13''), (''interaction_id'', Str ''call_2''),
      (''speech_start_time'', Num (1034241 / 1024)), (''speech_end_time'', Num (1035265 / 1024)),
      (''response_start_time'', Num (1035779 / 1024)),
      (''agent_response_end_time'', Num (1037315 / 1024)),
      (''user_speaking_time'', Num 1), (''agent_reply_time'', Num (3 / 2)),
      (''user_response_waiting_time'', Num 0), (''agent_idle_time_per_question'', Num 0)]"

definition fine_session :: "real recorder" where
  "fine_session =
     end_session (2088961 / 2048)
       (snd (log_interaction fine2 (snd (log_interaction fine1 started))))"

text \<open>A started recorder whose only record has no \<open>response_start_time\<close> and still holds
  an earlier waiting time of \<open>7\<close>.\<close>

definition stale_turn :: "real pydict" where
  "stale_turn =
     [(''timestamp'', Str ''2025-01-01T12:00:04''), (''interaction_id'', Str ''call_1''),
      (''speech_start_time'', Num (2001 / 2)), (''speech_end_time'', Num 1002),
      (''agent_response_end_time'', Num 1004),
      (''user_speaking_time'', Num (3 / 2)), (''agent_reply_time'', Num 2),
      (''user_response_waiting_time'', Num 7), (''agent_idle_time_per_question'', Num 0)]"

definition stale :: "real recorder" where
  "stale = snd (log_interaction stale_turn started)"

text \<open>The two turns, the first with a speaking time of \<open>2.5349\<close> seconds, in a session ended
  at \<open>t = 1020\<close>.\<close>

definition unrounded :: "real recorder" where
  "unrounded =
     end_session 1020
       (snd (log_interaction turn2
          (snd (log_interaction (dict_set ''user_speaking_time'' (Num (25349 / 10000)) turn1) started))))"

text \<open>A recorder that holds the first turn and on which \<open>start_session\<close> was never called.\<close>

definition never_started :: "real recorder" where
  "never_started = snd (log_interaction turn1 (init ''session_20250101_120000''))"

text \<open>The first turn without its \<open>interaction_id\<close>.\<close>

definition turn_without_id :: "real pydict" where
  "turn_without_id =
     [(''timestamp'', Str ''2025-01-01T12:00:04''),
      (''speech_start_time'', Num (2001 / 2)), (''speech_end_time'', Num 1002),
      (''response_start_time'', Num 1002), (''agent_response_end_time'', Num 1004),
      (''user_speaking_time'', Num (3 / 2)), (''agent_reply_time'', Num 2),
      (''user_response_waiting_time'', Num 0), (''agent_idle_time_per_question'', Num 0)]"

text \<open>A started recorder that was handed the first turn with one more entry, \<open>note\<close>.\<close>

definition extra_key :: "real recorder" where
  "extra_key = snd (log_interaction (turn1 @ [(''note'', Str ''callback requested'')]) started)"

section \<open>Properties\<close>

subsection \<open>Dictionaries\<close>

lemma dict_get_set_same: "dict_get (dict_set k v d) k = Inr v"
  by (simp add: dict_get_def dict_set_def update_conv')

lemma dict_get_set_other: "k' \<noteq> k \<Longrightarrow> dict_get (dict_set k v d) k' = dict_get d k'"
  by (simp add: dict_get_def dict_set_def update_conv')

lemma map_of_dict_set: "map_of (dict_set k v d) k' = (if k' = k then Some v else map_of d k')"
  by (simp add: dict_set_def update_conv')

lemma dict_set_same: "map_of d k = Some v \<Longrightarrow> dict_set k v d = d"
  by (simp add: dict_set_def update_triv)

lemma dict_set_twice: "dict_set k v (dict_set k v' d) = dict_set k v d"
  by (simp add: dict_set_def)

lemma is_num_map_of: "is_num r k \<Longrightarrow> map_of r k = Some (Num (num_field r k))"
  by (auto simp: is_num_def num_field_def split: option.splits pyval.splits)

lemma is_num_dict_get: "is_num r k \<Longrightarrow> dict_get r k = Inr (Num (num_field r k))"
  by (simp add: dict_get_def is_num_map_of)

lemma num_field_dict_set_other: "k' \<noteq> k \<Longrightarrow> num_field (dict_set k v r) k' = num_field r k'"
  by (simp add: num_field_def map_of_dict_set)

lemma is_num_dict_set_other: "k' \<noteq> k \<Longrightarrow> is_num (dict_set k v r) k' = is_num r k'"
  by (simp add: is_num_def map_of_dict_set)

subsection \<open>The loop on records that carry their timestamps\<close>

lemma idle_expr_typed:
  "is_num r ''response_start_time'' \<Longrightarrow> is_num r ''speech_end_time'' \<Longrightarrow>
   idle_expr ar r =
     Inr (Num (num_round ar
       (num_sub ar (num_field r ''response_start_time'') (num_field r ''speech_end_time'')) 3))"
  by (simp add: idle_expr_def is_num_dict_get)

lemma wait_expr_typed:
  "is_num r ''speech_start_time'' \<Longrightarrow>
   (case prev of None \<Rightarrow> Inr (opt_val start) | Some p \<Rightarrow> dict_get p ''agent_response_end_time'')
     = Inr (Num b) \<Longrightarrow>
   wait_expr ar start prev r =
     Inr (Num (num_round ar (num_sub ar (num_field r ''speech_start_time'') b) 3))"
  by (simp add: wait_expr_def is_num_dict_get)

lemma pass_typed_Cons:
  "pass_typed (r # rest) \<longleftrightarrow>
     stamped r \<and> (rest \<noteq> [] \<longrightarrow> is_num r ''agent_response_end_time'') \<and> pass_typed rest"
  by (cases rest) auto

lemma calc_loop_typed:
  assumes "pass_typed rs"
      and "(case prev of None \<Rightarrow> Inr (opt_val start) | Some p \<Rightarrow> dict_get p ''agent_response_end_time'')
             = Inr (Num b)"
  shows "calc_loop ar start prev rs = (None, recomputed_list ar b rs)"
  using assms
proof (induction rs arbitrary: prev b)
  case Nil
  then show ?case by simp
next
  case (Cons r rest)
  from Cons.prems(1) have st: "stamped r"
    and are: "rest \<noteq> [] \<Longrightarrow> is_num r ''agent_response_end_time''"
    and rest: "pass_typed rest"
    by (simp_all add: pass_typed_Cons)
  let ?idle = "Num (num_round ar
      (num_sub ar (num_field r ''response_start_time'') (num_field r ''speech_end_time'')) 3)"
  let ?r1 = "dict_set ''agent_idle_time_per_question'' ?idle r"
  have idle: "idle_expr ar r = Inr ?idle"
    using st by (simp add: stamped_def idle_expr_typed)
  have "is_num ?r1 ''speech_start_time''"
    using st by (simp add: stamped_def is_num_dict_set_other)
  then have "wait_expr ar start prev ?r1 =
      Inr (Num (num_round ar (num_sub ar (num_field ?r1 ''speech_start_time'') b) 3))"
    using Cons.prems(2) by (rule wait_expr_typed)
  then have wait: "wait_expr ar start prev ?r1 =
      Inr (Num (num_round ar (num_sub ar (num_field r ''speech_start_time'') b) 3))"
    by (simp add: num_field_dict_set_other)
  have "calc_loop ar start (Some (recomputed ar b r)) rest =
      (None, recomputed_list ar (num_field r ''agent_response_end_time'') rest)"
  proof (cases "rest = []")
    case True
    then show ?thesis by simp
  next
    case False
    then have "dict_get (recomputed ar b r) ''agent_response_end_time'' =
        Inr (Num (num_field r ''agent_response_end_time''))"
      using are by (simp add: recomputed_def dict_get_set_other is_num_dict_get)
    then show ?thesis
      using Cons.IH [OF rest, of "Some (recomputed ar b r)"] by simp
  qed
  then show ?case
    using idle wait by (simp add: recomputed_def)
qed

lemma recomputed_list_length: "length (recomputed_list ar b rs) = length rs"
  by (induction rs arbitrary: b) simp_all

lemma recomputed_list_nth:
  "i < length rs \<Longrightarrow>
   recomputed_list ar b rs ! i =
     recomputed ar (if i = 0 then b else num_field (rs ! (i - 1)) ''agent_response_end_time'') (rs ! i)"
proof (induction rs arbitrary: b i)
  case Nil
  then show ?case by simp
next
  case (Cons r rest)
  show ?case
  proof (cases i)
    case 0
    then show ?thesis by simp
  next
    case (Suc j)
    with Cons.prems have "j < length rest" by simp
    from Cons.IH [OF this] Suc show ?thesis
      by (cases j) simp_all
  qed
qed

lemma pass_typed_nth:
  "pass_typed rs \<Longrightarrow> i < length rs \<Longrightarrow>
   stamped (rs ! i) \<and> (Suc i < length rs \<longrightarrow> is_num (rs ! i) ''agent_response_end_time'')"
proof (induction rs arbitrary: i)
  case Nil
  then show ?case by simp
next
  case (Cons r rest)
  then show ?case
    by (cases i) (auto simp: pass_typed_Cons)
qed

lemma calculate_metrics_state:
  assumes "interactions s \<noteq> []"
      and "session_start_time s = Some t0"
      and "pass_typed (interactions s)"
  shows "snd (calculate_metrics ar s) =
           s\<lparr> interactions := recomputed_list ar t0 (interactions s) \<rparr>"
proof -
  have "calc_loop ar (session_start_time s) None (interactions s) =
      (None, recomputed_list ar t0 (interactions s))"
    using assms by (intro calc_loop_typed) simp_all
  with assms(1) show ?thesis
    by (simp add: calculate_metrics_def Let_def split: sum.splits)
qed

subsection \<open>The sums\<close>

lemma field_values_typed:
  "\<forall>r\<in>set rs. is_num r k \<Longrightarrow> field_values k rs = Inr (map (\<lambda>r. num_field r k) rs)"
  by (induction rs) (simp_all add: is_num_dict_get)

lemma recomputed_is_num:
  "is_num (recomputed ar b r) k \<longleftrightarrow>
     k = ''user_response_waiting_time'' \<or> k = ''agent_idle_time_per_question'' \<or> is_num r k"
  by (auto simp: recomputed_def is_num_def map_of_dict_set)

lemma recomputed_list_is_num:
  "\<forall>r\<in>set rs. is_num r k \<Longrightarrow> \<forall>r\<in>set (recomputed_list ar b rs). is_num r k"
  by (induction rs arbitrary: b) (simp_all add: recomputed_is_num)

lemma recomputed_list_idle_is_num:
  "\<forall>r\<in>set (recomputed_list ar b rs). is_num r ''agent_idle_time_per_question''"
  by (induction rs arbitrary: b) (simp_all add: recomputed_is_num)

lemma recomputed_num_field:
  "k \<noteq> ''user_response_waiting_time'' \<Longrightarrow> k \<noteq> ''agent_idle_time_per_question'' \<Longrightarrow>
   num_field (recomputed ar b r) k = num_field r k"
  by (simp add: recomputed_def num_field_dict_set_other)

lemma recomputed_list_num_field:
  "k \<noteq> ''user_response_waiting_time'' \<Longrightarrow> k \<noteq> ''agent_idle_time_per_question'' \<Longrightarrow>
   map (\<lambda>r. num_field r k) (recomputed_list ar b rs) = map (\<lambda>r. num_field r k) rs"
  by (induction rs arbitrary: b) (simp_all add: recomputed_num_field)

lemma session_duration_started:
  "session_duration ar (Some t0) en =
     Inr (Num (case en of
                 None \<Rightarrow> num_int ar 0
               | Some e \<Rightarrow> if num_bool ar e then num_round ar (num_sub ar e t0) 3 else num_int ar 0))"
  by (cases en) (simp_all add: session_duration_def)

lemma build_summary_typed:
  assumes "field_values ''user_speaking_time'' (interactions s) = Inr us"
      and "field_values ''agent_reply_time'' (interactions s) = Inr vs"
      and "field_values ''agent_idle_time_per_question'' (interactions s) = Inr ws"
      and "session_start_time s = Some t0"
  shows "build_summary ar s =
     Inr [(''session_id'', Str (session_id s)),
          (''total_questions'', Num (num_int ar (int (length (interactions s))))),
          (''total_user_speaking_time'', Num (num_round ar (num_sum ar us) 3)),
          (''average_user_speaking_time'',
             Num (num_round ar
               (num_div ar (num_sum ar us) (num_int ar (int (length (interactions s))))) 3)),
          (''total_agent_reply_time'', Num (num_round ar (num_sum ar vs) 3)),
          (''average_agent_reply_time'',
             Num (num_round ar
               (num_div ar (num_sum ar vs) (num_int ar (int (length (interactions s))))) 3)),
          (''total_agent_idle_time'', Num (num_round ar (num_sum ar ws) 3)),
          (''average_agent_idle_time'',
             Num (num_round ar
               (num_div ar (num_sum ar ws) (num_int ar (int (length (interactions s))))) 3)),
          (''total_voice_agent_response_time_during_start_end_call'',
             Num (case session_end_time s of
                    None \<Rightarrow> num_int ar 0
                  | Some e \<Rightarrow> if num_bool ar e then num_round ar (num_sub ar e t0) 3
                              else num_int ar 0)),
          (''session_start_time'', Num t0),
          (''session_end_time'', opt_val (session_end_time s))]"
  using assms
  by (simp add: build_summary_def sum_field_def session_duration_started Let_def)

subsection \<open>The example sessions, evaluated\<close>

lemma started_eq:
  "started =
     \<lparr> session_start_time = Some 1000, session_end_time = None, interactions = [],
       session_id = ''session_20250101_120000'',
       log = [(INFO, ''[Metrics] Session started: '', Some (Str ''session_20250101_120000''))],
       files = [] \<rparr>"
  by (simp add: started_def start_session_def init_def)

lemma fine_session_eq:
  "fine_session =
     \<lparr> session_start_time = Some 1000, session_end_time = Some (2088961 / 2048),
       interactions = [fine1 @ [(''session_id'', Str ''session_20250101_120000'')],
                       fine2 @ [(''session_id'', Str ''session_20250101_120000'')]],
       session_id = ''session_20250101_120000'',
       log = [(INFO, ''[Metrics] Session started: '', Some (Str ''session_20250101_120000'')),
              (INFO, ''[Metrics] Logged interaction: '', Some (Str ''call_1'')),
              (INFO, ''[Metrics] Logged interaction: '', Some (Str ''call_2'')),
              (INFO, ''[Metrics] Session ended: '', Some (Str ''session_20250101_120000''))],
       files = [] \<rparr>"
  by (simp add: fine_session_def started_eq end_session_def log_interaction_def dict_set_def
        dict_get_def fine1_def fine2_def)

lemma stale_eq:
  "stale =
     \<lparr> session_start_time = Some 1000, session_end_time = None,
       interactions = [stale_turn @ [(''session_id'', Str ''session_20250101_120000'')]],
       session_id = ''session_20250101_120000'',
       log = [(INFO, ''[Metrics] Session started: '', Some (Str ''session_20250101_120000'')),
              (INFO, ''[Metrics] Logged interaction: '', Some (Str ''call_1''))],
       files = [] \<rparr>"
  by (simp add: stale_def started_eq log_interaction_def dict_set_def dict_get_def stale_turn_def)

lemma unrounded_eq:
  "unrounded =
     \<lparr> session_start_time = Some 1000, session_end_time = Some 1020,
       interactions =
         [dict_set ''user_speaking_time'' (Num (25349 / 10000)) turn1
            @ [(''session_id'', Str ''session_20250101_120000'')],
          turn2 @ [(''session_id'', Str ''session_20250101_120000'')]],
       session_id = ''session_20250101_120000'',
       log = [(INFO, ''[Metrics] Session started: '', Some (Str ''session_20250101_120000'')),
              (INFO, ''[Metrics] Logged interaction: '', Some (Str ''call_1'')),
              (INFO, ''[Metrics] Logged interaction: '', Some (Str ''call_2'')),
              (INFO, ''[Metrics] Session ended: '', Some (Str ''session_20250101_120000''))],
       files = [] \<rparr>"
  by (simp add: unrounded_def started_eq end_session_def log_interaction_def dict_set_def
        dict_get_def turn1_def turn2_def)

text \<open>The definitions a run of \<open>calculate_metrics\<close> on a concrete session unfolds.\<close>

lemmas run_defs =
  calculate_metrics_def idle_expr_def wait_expr_def dict_get_def dict_set_def build_summary_def
  sum_field_def session_duration_def exact_def round_ndigits_def Let_def

lemma fine_session_typed:
  "pass_typed (interactions fine_session) \<and>
   list_all (\<lambda>r. is_num r ''user_speaking_time'' \<and> is_num r ''agent_reply_time'')
     (interactions fine_session)"
  by (simp add: fine_session_eq fine1_def fine2_def stamped_def is_num_def)

lemma fine_session_metrics:
  "calculate_metrics exact fine_session =
     (Inr (Some
        [(''session_id'', Str ''session_20250101_120000''),
         (''total_questions'', Num 2),
         (''total_user_speaking_time'', Num (5 / 2)),
         (''average_user_speaking_time'', Num (5 / 4)),
         (''total_agent_reply_time'', Num (13 / 4)),
         (''average_agent_reply_time'', Num (13 / 8)),
         (''total_agent_idle_time'', Num (752 / 1000)),
         (''average_agent_idle_time'', Num (376 / 1000)),
         (''total_voice_agent_response_time_during_start_end_call'', Num 20),
         (''session_start_time'', Num 1000),
         (''session_end_time'', Num (2088961 / 2048))]),
      fine_session\<lparr> interactions :=
        [[(''timestamp'', Str ''2025-01-01T12:00:04''), (''interaction_id'', Str ''call_1''),
          (''speech_start_time'', Num (2049025 / 2048)), (''speech_end_time'', Num 1002),
          (''response_start_time'', Num (4105217 / 4096)), (''agent_response_end_time'', Num 1004),
          (''user_speaking_time'', Num (3071 / 2048)), (''agent_reply_time'', Num (7167 / 4096)),
          (''user_response_waiting_time'', Num (1 / 2)),
          (''agent_idle_time_per_question'', Num (1 / 4)),
          (''session_id'', Str ''session_20250101_120000'')],
         [(''timestamp'', Str ''2025-01-01T12:00:13''), (''interaction_id'', Str ''call_2''),
          (''speech_start_time'', Num (1034241 / 1024)), (''speech_end_time'', Num (1035265 / 1024)),
          (''response_start_time'', Num (1035779 / 1024)),
          (''agent_response_end_time'', Num (1037315 / 1024)),
          (''user_speaking_time'', Num 1), (''agent_reply_time'', Num (3 / 2)),
          (''user_response_waiting_time'', Num (6001 / 1000)),
          (''agent_idle_time_per_question'', Num (502 / 1000)),
          (''session_id'', Str ''session_20250101_120000'')]] \<rparr>)"
  by (simp add: fine_session_eq fine1_def fine2_def run_defs)

subsection \<open>The per-record pass\<close>

text \<open>
  Claim C1, as amended. On a recorder with at least one interaction and a start time \<open>t0\<close>,
  whose records hold numbers under \<open>response_start_time\<close>, \<open>speech_end_time\<close> and
  \<open>speech_start_time\<close> and, all but the last, under \<open>agent_response_end_time\<close>,
  \<open>calculate_metrics\<close> leaves as many records as before, where record \<open>i\<close> has
  \<open>agent_idle_time_per_question = round(response_start_time - speech_end_time, 3)\<close> and
  \<open>user_response_waiting_time = round(speech_start_time - t0, 3)\<close> for \<open>i = 0\<close> and
  \<open>round(speech_start_time[i] - agent_response_end_time[i-1], 3)\<close> for \<open>i > 0\<close>, every
  right-hand side read from the records as they were before the call, in the arithmetic of
  the interpreter. When the records also hold numbers under \<open>user_speaking_time\<close> and
  \<open>agent_reply_time\<close>, the call returns a summary.
\<close>

theorem calculate_metrics_per_record:
  assumes "interactions s \<noteq> []"
      and "session_start_time s = Some t0"
      and "pass_typed (interactions s)"
  shows "length (interactions (snd (calculate_metrics ar s))) = length (interactions s) \<and>
         (\<forall>i<length (interactions s). \<exists>a e c.
            map_of (interactions s ! i) ''response_start_time'' = Some (Num a) \<and>
            map_of (interactions s ! i) ''speech_end_time'' = Some (Num e) \<and>
            map_of (interactions s ! i) ''speech_start_time'' = Some (Num c) \<and>
            map_of (interactions (snd (calculate_metrics ar s)) ! i) ''agent_idle_time_per_question'' =
              Some (Num (num_round ar (num_sub ar a e) 3)) \<and>
            (i = 0 \<longrightarrow>
               map_of (interactions (snd (calculate_metrics ar s)) ! i) ''user_response_waiting_time'' =
                 Some (Num (num_round ar (num_sub ar c t0) 3))) \<and>
            (0 < i \<longrightarrow>
               (\<exists>p. map_of (interactions s ! (i - 1)) ''agent_response_end_time'' = Some (Num p) \<and>
                  map_of (interactions (snd (calculate_metrics ar s)) ! i) ''user_response_waiting_time'' =
                    Some (Num (num_round ar (num_sub ar c p) 3))))) \<and>
         ((\<forall>r\<in>set (interactions s). is_num r ''user_speaking_time'' \<and> is_num r ''agent_reply_time'') \<longrightarrow>
            (\<exists>summary. fst (calculate_metrics ar s) = Inr (Some summary)))"
proof (intro conjI allI impI)
  let ?rs = "recomputed_list ar t0 (interactions s)"
  have state: "snd (calculate_metrics ar s) = s\<lparr> interactions := ?rs \<rparr>"
    using assms by (rule calculate_metrics_state)
  show "length (interactions (snd (calculate_metrics ar s))) = length (interactions s)"
    by (simp add: state recomputed_list_length)
  {
    fix i
    assume i: "i < length (interactions s)"
    let ?r = "interactions s ! i"
    let ?b = "if i = 0 then t0 else num_field (interactions s ! (i - 1)) ''agent_response_end_time''"
    have st: "stamped ?r"
      using pass_typed_nth [OF assms(3) i] by simp
    have new: "interactions (snd (calculate_metrics ar s)) ! i = recomputed ar ?b ?r"
      using i by (simp add: state recomputed_list_nth)
    have a: "map_of ?r ''response_start_time'' = Some (Num (num_field ?r ''response_start_time''))"
      using st by (simp add: stamped_def is_num_map_of)
    have e: "map_of ?r ''speech_end_time'' = Some (Num (num_field ?r ''speech_end_time''))"
      using st by (simp add: stamped_def is_num_map_of)
    have c: "map_of ?r ''speech_start_time'' = Some (Num (num_field ?r ''speech_start_time''))"
      using st by (simp add: stamped_def is_num_map_of)
    have idle: "map_of (interactions (snd (calculate_metrics ar s)) ! i) ''agent_idle_time_per_question'' =
        Some (Num (num_round ar
          (num_sub ar (num_field ?r ''response_start_time'') (num_field ?r ''speech_end_time'')) 3))"
      by (simp add: new recomputed_def map_of_dict_set)
    have wait: "map_of (interactions (snd (calculate_metrics ar s)) ! i) ''user_response_waiting_time'' =
        Some (Num (num_round ar (num_sub ar (num_field ?r ''speech_start_time'') ?b) 3))"
      by (simp add: new recomputed_def map_of_dict_set)
    have first: "i = 0 \<longrightarrow>
        map_of (interactions (snd (calculate_metrics ar s)) ! i) ''user_response_waiting_time'' =
          Some (Num (num_round ar (num_sub ar (num_field ?r ''speech_start_time'') t0) 3))"
      using wait by auto
    have later: "0 < i \<longrightarrow>
        (\<exists>p. map_of (interactions s ! (i - 1)) ''agent_response_end_time'' = Some (Num p) \<and>
           map_of (interactions (snd (calculate_metrics ar s)) ! i) ''user_response_waiting_time'' =
             Some (Num (num_round ar (num_sub ar (num_field ?r ''speech_start_time'') p) 3)))"
    proof
      assume pos: "0 < i"
      with i have "i - 1 < length (interactions s)" "Suc (i - 1) < length (interactions s)"
        by simp_all
      with pass_typed_nth [OF assms(3), of "i - 1"]
      have "is_num (interactions s ! (i - 1)) ''agent_response_end_time''"
        by simp
      then have "map_of (interactions s ! (i - 1)) ''agent_response_end_time'' =
          Some (Num (num_field (interactions s ! (i - 1)) ''agent_response_end_time''))"
        by (rule is_num_map_of)
      with wait pos show "\<exists>p. map_of (interactions s ! (i - 1)) ''agent_response_end_time'' = Some (Num p) \<and>
           map_of (interactions (snd (calculate_metrics ar s)) ! i) ''user_response_waiting_time'' =
             Some (Num (num_round ar (num_sub ar (num_field ?r ''speech_start_time'') p) 3))"
        by auto
    qed
    from a e c idle first later
    have "\<exists>a e c.
            map_of (interactions s ! i) ''response_start_time'' = Some (Num a) \<and>
            map_of (interactions s ! i) ''speech_end_time'' = Some (Num e) \<and>
            map_of (interactions s ! i) ''speech_start_time'' = Some (Num c) \<and>
            map_of (interactions (snd (calculate_metrics ar s)) ! i) ''agent_idle_time_per_question'' =
              Some (Num (num_round ar (num_sub ar a e) 3)) \<and>
            (i = 0 \<longrightarrow>
               map_of (interactions (snd (calculate_metrics ar s)) ! i) ''user_response_waiting_time'' =
                 Some (Num (num_round ar (num_sub ar c t0) 3))) \<and>
            (0 < i \<longrightarrow>
               (\<exists>p. map_of (interactions s ! (i - 1)) ''agent_response_end_time'' = Some (Num p) \<and>
                  map_of (interactions (snd (calculate_metrics ar s)) ! i) ''user_response_waiting_time'' =
                    Some (Num (num_round ar (num_sub ar c p) 3))))"
      by blast
  }
  then show "\<And>i. i < length (interactions s) \<Longrightarrow> \<exists>a e c.
            map_of (interactions s ! i) ''response_start_time'' = Some (Num a) \<and>
            map_of (interactions s ! i) ''speech_end_time'' = Some (Num e) \<and>
            map_of (interactions s ! i) ''speech_start_time'' = Some (Num c) \<and>
            map_of (interactions (snd (calculate_metrics ar s)) ! i) ''agent_idle_time_per_question'' =
              Some (Num (num_round ar (num_sub ar a e) 3)) \<and>
            (i = 0 \<longrightarrow>
               map_of (interactions (snd (calculate_metrics ar s)) ! i) ''user_response_waiting_time'' =
                 Some (Num (num_round ar (num_sub ar c t0) 3))) \<and>
            (0 < i \<longrightarrow>
               (\<exists>p. map_of (interactions s ! (i - 1)) ''agent_response_end_time'' = Some (Num p) \<and>
                  map_of (interactions (snd (calculate_metrics ar s)) ! i) ''user_response_waiting_time'' =
                    Some (Num (num_round ar (num_sub ar c p) 3))))"
    by blast
  assume durations: "\<forall>r\<in>set (interactions s). is_num r ''user_speaking_time'' \<and> is_num r ''agent_reply_time''"
  have loop: "calc_loop ar (session_start_time s) None (interactions s) = (None, ?rs)"
    using assms by (intro calc_loop_typed) simp_all
  have "\<forall>r\<in>set (interactions s). is_num r ''user_speaking_time''"
    using durations by simp
  then have "\<forall>r\<in>set ?rs. is_num r ''user_speaking_time''"
    by (rule recomputed_list_is_num)
  then have us: "field_values ''user_speaking_time'' ?rs = Inr (map (\<lambda>r. num_field r ''user_speaking_time'') ?rs)"
    by (rule field_values_typed)
  have "\<forall>r\<in>set (interactions s). is_num r ''agent_reply_time''"
    using durations by simp
  then have "\<forall>r\<in>set ?rs. is_num r ''agent_reply_time''"
    by (rule recomputed_list_is_num)
  then have vs: "field_values ''agent_reply_time'' ?rs = Inr (map (\<lambda>r. num_field r ''agent_reply_time'') ?rs)"
    by (rule field_values_typed)
  have ws: "field_values ''agent_idle_time_per_question'' ?rs =
      Inr (map (\<lambda>r. num_field r ''agent_idle_time_per_question'') ?rs)"
    by (rule field_values_typed) (rule recomputed_list_idle_is_num)
  have "\<exists>summary. build_summary ar (s\<lparr> interactions := ?rs \<rparr>) = Inr summary"
    using build_summary_typed [of "s\<lparr> interactions := ?rs \<rparr>" _ _ _ t0 ar] us vs ws assms(2)
    by simp
  with loop assms(1) show "\<exists>summary. fst (calculate_metrics ar s) = Inr (Some summary)"
    by (auto simp: calculate_metrics_def Let_def)
qed

theorem calculate_metrics_per_record_witness:
  "interactions fine_session \<noteq> [] \<and> session_start_time fine_session = Some 1000 \<and>
   pass_typed (interactions fine_session) \<and>
   list_all (\<lambda>r. is_num r ''user_speaking_time'' \<and> is_num r ''agent_reply_time'')
     (interactions fine_session) \<and>
   length (interactions (snd (calculate_metrics exact fine_session))) = 2 \<and>
   map_of (interactions (snd (calculate_metrics exact fine_session)) ! 0)
     ''agent_idle_time_per_question'' = Some (Num (250 / 1000)) \<and>
   map_of (interactions (snd (calculate_metrics exact fine_session)) ! 0)
     ''user_response_waiting_time'' = Some (Num (500 / 1000)) \<and>
   map_of (interactions (snd (calculate_metrics exact fine_session)) ! 1)
     ''agent_idle_time_per_question'' = Some (Num (502 / 1000)) \<and>
   map_of (interactions (snd (calculate_metrics exact fine_session)) ! 1)
     ''user_response_waiting_time'' = Some (Num (6001 / 1000)) \<and>
   (\<exists>summary. fst (calculate_metrics exact fine_session) = Inr (Some summary))"
proof -
  have ne: "interactions fine_session \<noteq> []"
    by (simp add: fine_session_eq)
  have st: "session_start_time fine_session = Some 1000"
    by (simp add: fine_session_eq)
  have pt: "pass_typed (interactions fine_session)"
    using fine_session_typed by simp
  have du: "\<forall>r\<in>set (interactions fine_session).
      is_num r ''user_speaking_time'' \<and> is_num r ''agent_reply_time''"
    using fine_session_typed by (simp add: list_all_iff)
  note inst = calculate_metrics_per_record [OF ne st pt, of exact]
  have two: "length (interactions fine_session) = 2"
    by (simp add: fine_session_eq)
  from inst have len: "length (interactions (snd (calculate_metrics exact fine_session))) = 2"
    by (simp add: two)
  from inst du have ret: "\<exists>summary. fst (calculate_metrics exact fine_session) = Inr (Some summary)"
    by blast
  have r0: "map_of (interactions (snd (calculate_metrics exact fine_session)) ! 0)
       ''agent_idle_time_per_question'' = Some (Num (250 / 1000)) \<and>
     map_of (interactions (snd (calculate_metrics exact fine_session)) ! 0)
       ''user_response_waiting_time'' = Some (Num (500 / 1000))"
    by (simp add: fine_session_metrics)
  have r1: "map_of (interactions (snd (calculate_metrics exact fine_session)) ! 1)
       ''agent_idle_time_per_question'' = Some (Num (502 / 1000)) \<and>
     map_of (interactions (snd (calculate_metrics exact fine_session)) ! 1)
       ''user_response_waiting_time'' = Some (Num (6001 / 1000))"
    by (simp add: fine_session_metrics)
  from ne st fine_session_typed len r0 r1 ret show ?thesis
    by simp
qed

text \<open>
  The claim as written, for every recorder with a non-empty interaction sequence and a start
  time, fails on a record without \<open>response_start_time\<close>: the call raises \<open>KeyError\<close> in
  the first statement of the loop and the record keeps its earlier waiting time \<open>7\<close>, where
  the claim asks for \<open>round(1000.5 - 1000, 3) = 0.5\<close>.
\<close>

theorem calculate_metrics_per_record_counterexample:
  "interactions stale \<noteq> [] \<and> session_start_time stale = Some 1000 \<and>
   calculate_metrics exact stale = (Inl (KeyError ''response_start_time''), stale) \<and>
   map_of (interactions stale ! 0) ''speech_start_time'' = Some (Num (2001 / 2)) \<and>
   map_of (interactions stale ! 0) ''user_response_waiting_time'' = Some (Num 7) \<and>
   num_round exact (num_sub exact (2001 / 2) 1000) 3 = 1 / 2"
  by (simp add: stale_eq stale_turn_def run_defs)

subsection \<open>The session summary\<close>

text \<open>
  Claim C2, as amended. On a recorder with \<open>N \<ge> 1\<close> interactions and a start time \<open>t0\<close>,
  whose records hold the numbers the pass reads and numbers under \<open>user_speaking_time\<close> and
  \<open>agent_reply_time\<close>, \<open>calculate_metrics\<close> returns a summary with \<open>total_questions = N\<close>;
  the three totals are \<open>round(S, 3)\<close> for \<open>S\<close> the \<open>sum\<close> of \<open>user_speaking_time\<close>, of
  \<open>agent_reply_time\<close> and of the recomputed \<open>agent_idle_time_per_question\<close> over the
  records; each average is \<open>round(S / N, 3)\<close> for the same \<open>S\<close>, the sum itself and not the
  rounded total; and the session duration is \<open>0\<close> when no end time is set and
  \<open>round(session_end_time - t0, 3)\<close> when an end time is set whose truth value is true.
\<close>

theorem calculate_metrics_summary:
  assumes "interactions s \<noteq> []"
      and "session_start_time s = Some t0"
      and "pass_typed (interactions s)"
      and "\<forall>r\<in>set (interactions s). is_num r ''user_speaking_time'' \<and> is_num r ''agent_reply_time''"
  shows "\<exists>summary us vs ws.
           fst (calculate_metrics ar s) = Inr (Some summary) \<and>
           field_values ''user_speaking_time'' (interactions s) = Inr us \<and>
           field_values ''agent_reply_time'' (interactions s) = Inr vs \<and>
           field_values ''agent_idle_time_per_question''
             (interactions (snd (calculate_metrics ar s))) = Inr ws \<and>
           map_of summary ''total_questions'' =
             Some (Num (num_int ar (int (length (interactions s))))) \<and>
           map_of summary ''total_user_speaking_time'' =
             Some (Num (num_round ar (num_sum ar us) 3)) \<and>
           map_of summary ''average_user_speaking_time'' =
             Some (Num (num_round ar
               (num_div ar (num_sum ar us) (num_int ar (int (length (interactions s))))) 3)) \<and>
           map_of summary ''total_agent_reply_time'' =
             Some (Num (num_round ar (num_sum ar vs) 3)) \<and>
           map_of summary ''average_agent_reply_time'' =
             Some (Num (num_round ar
               (num_div ar (num_sum ar vs) (num_int ar (int (length (interactions s))))) 3)) \<and>
           map_of summary ''total_agent_idle_time'' =
             Some (Num (num_round ar (num_sum ar ws) 3)) \<and>
           map_of summary ''average_agent_idle_time'' =
             Some (Num (num_round ar
               (num_div ar (num_sum ar ws) (num_int ar (int (length (interactions s))))) 3)) \<and>
           (session_end_time s = None \<longrightarrow>
              map_of summary ''total_voice_agent_response_time_during_start_end_call'' =
                Some (Num (num_int ar 0))) \<and>
           (\<forall>e. session_end_time s = Some e \<longrightarrow> num_bool ar e \<longrightarrow>
              map_of summary ''total_voice_agent_response_time_during_start_end_call'' =
                Some (Num (num_round ar (num_sub ar e t0) 3)))"
proof -
  let ?rs = "recomputed_list ar t0 (interactions s)"
  let ?s1 = "s\<lparr> interactions := ?rs \<rparr>"
  let ?us = "map (\<lambda>r. num_field r ''user_speaking_time'') (interactions s)"
  let ?vs = "map (\<lambda>r. num_field r ''agent_reply_time'') (interactions s)"
  let ?ws = "map (\<lambda>r. num_field r ''agent_idle_time_per_question'') ?rs"
  let ?n = "num_int ar (int (length (interactions s)))"
  let ?summary =
    "[(''session_id'', Str (session_id s)),
      (''total_questions'', Num ?n),
      (''total_user_speaking_time'', Num (num_round ar (num_sum ar ?us) 3)),
      (''average_user_speaking_time'', Num (num_round ar (num_div ar (num_sum ar ?us) ?n) 3)),
      (''total_agent_reply_time'', Num (num_round ar (num_sum ar ?vs) 3)),
      (''average_agent_reply_time'', Num (num_round ar (num_div ar (num_sum ar ?vs) ?n) 3)),
      (''total_agent_idle_time'', Num (num_round ar (num_sum ar ?ws) 3)),
      (''average_agent_idle_time'', Num (num_round ar (num_div ar (num_sum ar ?ws) ?n) 3)),
      (''total_voice_agent_response_time_during_start_end_call'',
         Num (case session_end_time s of
                None \<Rightarrow> num_int ar 0
              | Some e \<Rightarrow> if num_bool ar e then num_round ar (num_sub ar e t0) 3
                          else num_int ar 0)),
      (''session_start_time'', Num t0),
      (''session_end_time'', opt_val (session_end_time s))]"
  have state: "snd (calculate_metrics ar s) = ?s1"
    using assms(1-3) by (rule calculate_metrics_state)
  have loop: "calc_loop ar (session_start_time s) None (interactions s) = (None, ?rs)"
    using assms by (intro calc_loop_typed) simp_all
  have u: "\<forall>r\<in>set (interactions s). is_num r ''user_speaking_time''"
    using assms(4) by simp
  have v: "\<forall>r\<in>set (interactions s). is_num r ''agent_reply_time''"
    using assms(4) by simp
  have us: "field_values ''user_speaking_time'' (interactions s) = Inr ?us"
    using u by (rule field_values_typed)
  have vs: "field_values ''agent_reply_time'' (interactions s) = Inr ?vs"
    using v by (rule field_values_typed)
  have "\<forall>r\<in>set ?rs. is_num r ''user_speaking_time''"
    using u by (rule recomputed_list_is_num)
  then have "field_values ''user_speaking_time'' ?rs =
      Inr (map (\<lambda>r. num_field r ''user_speaking_time'') ?rs)"
    by (rule field_values_typed)
  then have us1: "field_values ''user_speaking_time'' (interactions ?s1) = Inr ?us"
    by (simp add: recomputed_list_num_field)
  have "\<forall>r\<in>set ?rs. is_num r ''agent_reply_time''"
    using v by (rule recomputed_list_is_num)
  then have "field_values ''agent_reply_time'' ?rs =
      Inr (map (\<lambda>r. num_field r ''agent_reply_time'') ?rs)"
    by (rule field_values_typed)
  then have vs1: "field_values ''agent_reply_time'' (interactions ?s1) = Inr ?vs"
    by (simp add: recomputed_list_num_field)
  have "field_values ''agent_idle_time_per_question'' ?rs = Inr ?ws"
    by (rule field_values_typed) (rule recomputed_list_idle_is_num)
  then have ws1: "field_values ''agent_idle_time_per_question'' (interactions ?s1) = Inr ?ws"
    by simp
  have st1: "session_start_time ?s1 = Some t0"
    using assms(2) by simp
  have "build_summary ar ?s1 = Inr ?summary"
    using build_summary_typed [OF us1 vs1 ws1 st1, of ar]
    by (simp add: recomputed_list_length)
  with loop assms(1) have out: "fst (calculate_metrics ar s) = Inr (Some ?summary)"
    by (simp add: calculate_metrics_def Let_def)
  have ws: "field_values ''agent_idle_time_per_question''
      (interactions (snd (calculate_metrics ar s))) = Inr ?ws"
    using ws1 by (simp add: state)
  have d0: "session_end_time s = None \<longrightarrow>
      map_of ?summary ''total_voice_agent_response_time_during_start_end_call'' =
        Some (Num (num_int ar 0))"
    by simp
  have d1: "\<forall>e. session_end_time s = Some e \<longrightarrow> num_bool ar e \<longrightarrow>
      map_of ?summary ''total_voice_agent_response_time_during_start_end_call'' =
        Some (Num (num_round ar (num_sub ar e t0) 3))"
    by simp
  show ?thesis
    apply (rule exI [of _ ?summary])
    apply (rule exI [of _ ?us])
    apply (rule exI [of _ ?vs])
    apply (rule exI [of _ ?ws])
    using out us vs ws d0 d1 by simp
qed

theorem calculate_metrics_summary_witness:
  "interactions fine_session \<noteq> [] \<and> session_start_time fine_session = Some 1000 \<and>
   pass_typed (interactions fine_session) \<and>
   list_all (\<lambda>r. is_num r ''user_speaking_time'' \<and> is_num r ''agent_reply_time'')
     (interactions fine_session) \<and>
   session_end_time fine_session = Some (2088961 / 2048) \<and>
   num_bool exact (2088961 / 2048) \<and>
   (\<exists>summary.
      fst (calculate_metrics exact fine_session) = Inr (Some summary) \<and>
      map_of summary ''total_questions'' = Some (Num 2) \<and>
      map_of summary ''total_user_speaking_time'' = Some (Num (2500 / 1000)) \<and>
      map_of summary ''average_user_speaking_time'' = Some (Num (1250 / 1000)) \<and>
      map_of summary ''total_agent_reply_time'' = Some (Num (3250 / 1000)) \<and>
      map_of summary ''average_agent_reply_time'' = Some (Num (1625 / 1000)) \<and>
      map_of summary ''total_agent_idle_time'' = Some (Num (752 / 1000)) \<and>
      map_of summary ''average_agent_idle_time'' = Some (Num (376 / 1000)) \<and>
      map_of summary ''total_voice_agent_response_time_during_start_end_call'' = Some (Num 20))"
proof -
  have ne: "interactions fine_session \<noteq> []"
    by (simp add: fine_session_eq)
  have st: "session_start_time fine_session = Some 1000"
    by (simp add: fine_session_eq)
  have en: "session_end_time fine_session = Some (2088961 / 2048)"
    by (simp add: fine_session_eq)
  have tr: "num_bool exact (2088961 / 2048)"
    by (simp add: exact_def)
  have pt: "pass_typed (interactions fine_session)"
    using fine_session_typed by simp
  have du: "\<forall>r\<in>set (interactions fine_session).
      is_num r ''user_speaking_time'' \<and> is_num r ''agent_reply_time''"
    using fine_session_typed by (simp add: list_all_iff)
  from calculate_metrics_summary [OF ne st pt du, of exact]
  obtain summary where out: "fst (calculate_metrics exact fine_session) = Inr (Some summary)"
    by blast
  then have "summary =
        [(''session_id'', Str ''session_20250101_120000''),
         (''total_questions'', Num 2),
         (''total_user_speaking_time'', Num (5 / 2)),
         (''average_user_speaking_time'', Num (5 / 4)),
         (''total_agent_reply_time'', Num (13 / 4)),
         (''average_agent_reply_time'', Num (13 / 8)),
         (''total_agent_idle_time'', Num (752 / 1000)),
         (''average_agent_idle_time'', Num (376 / 1000)),
         (''total_voice_agent_response_time_during_start_end_call'', Num 20),
         (''session_start_time'', Num 1000),
         (''session_end_time'', Num (2088961 / 2048))]"
    by (simp add: fine_session_metrics)
  with ne st en tr fine_session_typed out show ?thesis
    by simp
qed

text \<open>
  The claim as written takes each average from the total, which it has just defined as the
  rounded sum. On the speaking times \<open>2.5349\<close> and \<open>1\<close> the total is \<open>3.535\<close> and the
  average is \<open>round(3.5349 / 2, 3) = 1.767\<close>, where \<open>round(3.535 / 2, 3)\<close> is \<open>1.768\<close>.
  And the claim as written, for every recorder with \<open>N \<ge> 1\<close> interactions and a start time,
  promises a summary where the call raises: on the started recorder whose one record has no
  \<open>response_start_time\<close> the outcome is \<open>KeyError\<close>.
\<close>

theorem calculate_metrics_summary_counterexample:
  "fst (calculate_metrics exact unrounded) =
     Inr (Some
       [(''session_id'', Str ''session_20250101_120000''),
        (''total_questions'', Num 2),
        (''total_user_speaking_time'', Num (3535 / 1000)),
        (''average_user_speaking_time'', Num (1767 / 1000)),
        (''total_agent_reply_time'', Num (7 / 2)),
        (''average_agent_reply_time'', Num (7 / 4)),
        (''total_agent_idle_time'', Num (1 / 2)),
        (''average_agent_idle_time'', Num (1 / 4)),
        (''total_voice_agent_response_time_during_start_end_call'', Num 20),
        (''session_start_time'', Num 1000),
        (''session_end_time'', Num 1020)]) \<and>
   num_round exact (num_div exact (3535 / 1000) (num_int exact 2)) 3 = 1768 / 1000 \<and>
   length (interactions stale) = 1 \<and> session_start_time stale = Some 1000 \<and>
   fst (calculate_metrics exact stale) = Inl (KeyError ''response_start_time'')"
  by (simp add: unrounded_eq turn1_def turn2_def stale_eq stale_turn_def run_defs)

lemma one_turn_eq:
  "one_turn =
     \<lparr> session_start_time = Some 1000, session_end_time = None,
       interactions = [turn1 @ [(''session_id'', Str ''session_20250101_120000'')]],
       session_id = ''session_20250101_120000'',
       log = [(INFO, ''[Metrics] Session started: '', Some (Str ''session_20250101_120000'')),
              (INFO, ''[Metrics] Logged interaction: '', Some (Str ''call_1''))],
       files = [] \<rparr>"
  by (simp add: one_turn_def started_eq log_interaction_def dict_set_def dict_get_def turn1_def)

lemma two_turns_eq:
  "two_turns =
     \<lparr> session_start_time = Some 1000, session_end_time = None,
       interactions = [turn1 @ [(''session_id'', Str ''session_20250101_120000'')],
                       turn2 @ [(''session_id'', Str ''session_20250101_120000'')]],
       session_id = ''session_20250101_120000'',
       log = [(INFO, ''[Metrics] Session started: '', Some (Str ''session_20250101_120000'')),
              (INFO, ''[Metrics] Logged interaction: '', Some (Str ''call_1'')),
              (INFO, ''[Metrics] Logged interaction: '', Some (Str ''call_2''))],
       files = [] \<rparr>"
  by (simp add: two_turns_def one_turn_eq log_interaction_def dict_set_def dict_get_def turn2_def)

lemma ended_eq:
  "ended =
     \<lparr> session_start_time = Some 1000, session_end_time = Some 1020,
       interactions = [turn1 @ [(''session_id'', Str ''session_20250101_120000'')],
                       turn2 @ [(''session_id'', Str ''session_20250101_120000'')]],
       session_id = ''session_20250101_120000'',
       log = [(INFO, ''[Metrics] Session started: '', Some (Str ''session_20250101_120000'')),
              (INFO, ''[Metrics] Logged interaction: '', Some (Str ''call_1'')),
              (INFO, ''[Metrics] Logged interaction: '', Some (Str ''call_2'')),
              (INFO, ''[Metrics] Session ended: '', Some (Str ''session_20250101_120000''))],
       files = [] \<rparr>"
  by (simp add: ended_def two_turns_eq end_session_def)

lemma never_started_eq:
  "never_started =
     \<lparr> session_start_time = None, session_end_time = None,
       interactions = [turn1 @ [(''session_id'', Str ''session_20250101_120000'')]],
       session_id = ''session_20250101_120000'',
       log = [(INFO, ''[Metrics] Logged interaction: '', Some (Str ''call_1''))],
       files = [] \<rparr>"
  by (simp add: never_started_def init_def log_interaction_def dict_set_def dict_get_def turn1_def)

subsection \<open>An empty session\<close>

text \<open>
  Claim C5. On a recorder whose interaction sequence is empty, \<open>calculate_metrics\<close> logs the
  warning "No interactions recorded", returns \<open>None\<close> and raises nothing, whatever the start
  and end times are; nothing else of the state changes.
\<close>

theorem calculate_metrics_empty:
  "interactions s = [] \<Longrightarrow>
   calculate_metrics ar s =
     (Inr None, s\<lparr> log := log s @ [(WARNING, ''[Metrics] No interactions recorded'', None)] \<rparr>)"
  by (simp add: calculate_metrics_def)

theorem calculate_metrics_empty_witness:
  "interactions (end_session 1020 started) = [] \<and>
   calculate_metrics exact (end_session 1020 started) =
     (Inr None,
      \<lparr> session_start_time = Some 1000, session_end_time = Some 1020, interactions = [],
        session_id = ''session_20250101_120000'',
        log = [(INFO, ''[Metrics] Session started: '', Some (Str ''session_20250101_120000'')),
               (INFO, ''[Metrics] Session ended: '', Some (Str ''session_20250101_120000'')),
               (WARNING, ''[Metrics] No interactions recorded'', None)],
        files = [] \<rparr>)"
  using calculate_metrics_empty [of "end_session 1020 started" exact]
  by (simp add: started_eq end_session_def)

subsection \<open>What the pass leaves alone\<close>

lemma idle_expr_dict_set:
  "k \<noteq> ''response_start_time'' \<Longrightarrow> k \<noteq> ''speech_end_time'' \<Longrightarrow>
   idle_expr ar (dict_set k v r) = idle_expr ar r"
  by (simp add: idle_expr_def dict_get_set_other cong: sum.case_cong)

lemma wait_expr_dict_set:
  "k \<noteq> ''speech_start_time'' \<Longrightarrow>
   wait_expr ar start prev (dict_set k v r) = wait_expr ar start prev r"
  by (simp add: wait_expr_def dict_get_set_other cong: sum.case_cong)

lemma calc_loop_length: "calc_loop ar start prev rs = (e, rs') \<Longrightarrow> length rs' = length rs"
proof (induction rs arbitrary: prev e rs')
  case Nil
  then show ?case by simp
next
  case (Cons r rest)
  then show ?case
    by (auto simp: Let_def split: sum.splits prod.splits)
qed

lemma calc_loop_frame:
  "calc_loop ar start prev rs = (e, rs') \<Longrightarrow>
   list_all2 (\<lambda>r r'. \<forall>k. k \<noteq> ''agent_idle_time_per_question'' \<longrightarrow>
                          k \<noteq> ''user_response_waiting_time'' \<longrightarrow> map_of r' k = map_of r k) rs rs'"
proof (induction rs arbitrary: prev e rs')
  case Nil
  then show ?case by simp
next
  case (Cons r rest)
  have refl: "list_all2 (\<lambda>r r'. \<forall>k. k \<noteq> ''agent_idle_time_per_question'' \<longrightarrow>
                          k \<noteq> ''user_response_waiting_time'' \<longrightarrow> map_of r' k = map_of r k) rest rest"
    by (simp add: list_all2_same)
  from Cons.prems Cons.IH refl show ?case
    by (auto simp: Let_def map_of_dict_set split: sum.splits prod.splits)
qed

text \<open>
  Claim C10. Whatever the outcome of \<open>calculate_metrics\<close>, and so in particular on a recorder
  with a non-empty interaction sequence and a start time, the call keeps the number and the
  order of the stored records and changes in a record at most the two entries
  \<open>agent_idle_time_per_question\<close> and \<open>user_response_waiting_time\<close>: every other key
  (\<open>timestamp\<close>, \<open>interaction_id\<close>, the four raw timestamps, \<open>user_speaking_time\<close>,
  \<open>agent_reply_time\<close>, \<open>session_id\<close>) reads as before. The attributes \<open>session_id\<close>,
  \<open>session_start_time\<close> and \<open>session_end_time\<close> and the files are unchanged.
\<close>

theorem calculate_metrics_frame:
  assumes "calculate_metrics ar s = (out, s')"
  shows "session_id s' = session_id s \<and>
         session_start_time s' = session_start_time s \<and>
         session_end_time s' = session_end_time s \<and>
         files s' = files s \<and>
         length (interactions s') = length (interactions s) \<and>
         (\<forall>i<length (interactions s). \<forall>k.
            k \<noteq> ''agent_idle_time_per_question'' \<longrightarrow> k \<noteq> ''user_response_waiting_time'' \<longrightarrow>
            map_of (interactions s' ! i) k = map_of (interactions s ! i) k)"
proof (cases "interactions s = []")
  case True
  with assms show ?thesis
    by (auto simp: calculate_metrics_def)
next
  case False
  obtain e rs where loop: "calc_loop ar (session_start_time s) None (interactions s) = (e, rs)"
    by (cases "calc_loop ar (session_start_time s) None (interactions s)")
  from calc_loop_frame [OF loop]
  have fr: "\<forall>i<length (interactions s). \<forall>k.
      k \<noteq> ''agent_idle_time_per_question'' \<longrightarrow> k \<noteq> ''user_response_waiting_time'' \<longrightarrow>
      map_of (rs ! i) k = map_of (interactions s ! i) k"
    by (simp add: list_all2_conv_all_nth)
  have len: "length rs = length (interactions s)"
    using loop by (rule calc_loop_length)
  have "s' = (s\<lparr> interactions := rs \<rparr>)"
    using assms False loop
    by (auto simp: calculate_metrics_def Let_def split: option.splits sum.splits)
  with fr len show ?thesis by simp
qed

theorem calculate_metrics_frame_witness:
  "calculate_metrics exact two_turns =
     (fst (calculate_metrics exact two_turns), snd (calculate_metrics exact two_turns)) \<and>
   session_id (snd (calculate_metrics exact two_turns)) = ''session_20250101_120000'' \<and>
   session_start_time (snd (calculate_metrics exact two_turns)) = Some 1000 \<and>
   session_end_time (snd (calculate_metrics exact two_turns)) = None \<and>
   length (interactions (snd (calculate_metrics exact two_turns))) = 2 \<and>
   map_of (interactions (snd (calculate_metrics exact two_turns)) ! 0) ''interaction_id'' =
     Some (Str ''call_1'') \<and>
   map_of (interactions (snd (calculate_metrics exact two_turns)) ! 1) ''speech_start_time'' =
     Some (Num 1010) \<and>
   map_of (interactions (snd (calculate_metrics exact two_turns)) ! 1) ''agent_reply_time'' =
     Some (Num (3 / 2))"
proof -
  have cm: "calculate_metrics exact two_turns =
      (fst (calculate_metrics exact two_turns), snd (calculate_metrics exact two_turns))"
    by simp
  note fr = calculate_metrics_frame [OF cm]
  have len: "length (interactions two_turns) = 2"
    by (simp add: two_turns_eq)
  from fr have r0:
    "map_of (interactions (snd (calculate_metrics exact two_turns)) ! 0) ''interaction_id'' =
      map_of (interactions two_turns ! 0) ''interaction_id''"
    by (simp add: len)
  from fr have r1:
    "map_of (interactions (snd (calculate_metrics exact two_turns)) ! 1) ''speech_start_time'' =
      map_of (interactions two_turns ! 1) ''speech_start_time''"
    by (simp add: len)
  from fr have r2:
    "map_of (interactions (snd (calculate_metrics exact two_turns)) ! 1) ''agent_reply_time'' =
      map_of (interactions two_turns ! 1) ''agent_reply_time''"
    by (simp add: len)
  from fr r0 r1 r2 show ?thesis
    by (simp add: two_turns_eq turn1_def turn2_def)
qed

subsection \<open>Running the pass twice\<close>

lemma wait_expr_prev:
  "(case prev' of None \<Rightarrow> Inr (opt_val start) | Some p \<Rightarrow> dict_get p ''agent_response_end_time'') =
   (case prev of None \<Rightarrow> Inr (opt_val start) | Some p \<Rightarrow> dict_get p ''agent_response_end_time'') \<Longrightarrow>
   wait_expr ar start prev' r = wait_expr ar start prev r"
  by (simp add: wait_expr_def cong: sum.case_cong)

lemma calc_loop_again:
  assumes "calc_loop ar start prev rs = (e, rs')"
      and "(case prev' of None \<Rightarrow> Inr (opt_val start) | Some p \<Rightarrow> dict_get p ''agent_response_end_time'') =
           (case prev of None \<Rightarrow> Inr (opt_val start) | Some p \<Rightarrow> dict_get p ''agent_response_end_time'')"
  shows "calc_loop ar start prev' rs' = (e, rs')"
  using assms
proof (induction rs arbitrary: prev prev' e rs')
  case Nil
  then show ?case by simp
next
  case (Cons r rest)
  note same = wait_expr_prev [OF Cons.prems(2)]
  show ?case
  proof (cases "idle_expr ar r")
    case (Inl x)
    with Cons.prems(1) show ?thesis by auto
  next
    case (Inr idle)
    let ?r1 = "dict_set ''agent_idle_time_per_question'' idle r"
    have idle1: "idle_expr ar ?r1 = Inr idle"
      using Inr by (simp add: idle_expr_dict_set)
    show ?thesis
    proof (cases "wait_expr ar start prev ?r1")
      case (Inl x)
      with Cons.prems(1) Inr have "e = Some x" "rs' = ?r1 # rest"
        by (simp_all add: Let_def)
      with Inl idle1 same show ?thesis
        by (simp add: Let_def dict_set_twice)
    next
      case w: (Inr w)
      let ?r2 = "dict_set ''user_response_waiting_time'' w ?r1"
      obtain rest' where rec: "calc_loop ar start (Some ?r2) rest = (e, rest')"
        and rs': "rs' = ?r2 # rest'"
        using Cons.prems(1) Inr w by (auto simp: Let_def split: prod.splits)
      have again: "calc_loop ar start (Some ?r2) rest' = (e, rest')"
        using rec by (rule Cons.IH) simp
      have idle2: "idle_expr ar ?r2 = Inr idle"
        using idle1 by (simp add: idle_expr_dict_set)
      have set_idle: "dict_set ''agent_idle_time_per_question'' idle ?r2 = ?r2"
        by (rule dict_set_same) (simp add: map_of_dict_set)
      have wait2: "wait_expr ar start prev' ?r2 = Inr w"
        using w same by (simp add: wait_expr_dict_set)
      show ?thesis
        using idle2 set_idle wait2 again rs' by (simp add: Let_def dict_set_twice)
    qed
  qed
qed

text \<open>
  Claim C6. On every recorder state, a second call of \<open>calculate_metrics\<close> right after a first
  one has the same outcome as the first (the same summary, \<open>None\<close> both times, or the same
  exception) and leaves the stored interaction records as the first call left them.
\<close>

theorem calculate_metrics_idempotent:
  "fst (calculate_metrics ar (snd (calculate_metrics ar s))) = fst (calculate_metrics ar s) \<and>
   interactions (snd (calculate_metrics ar (snd (calculate_metrics ar s)))) =
     interactions (snd (calculate_metrics ar s))"
proof (cases "interactions s = []")
  case True
  then show ?thesis
    by (simp add: calculate_metrics_def)
next
  case False
  obtain e rs where loop: "calc_loop ar (session_start_time s) None (interactions s) = (e, rs)"
    by (cases "calc_loop ar (session_start_time s) None (interactions s)")
  have again: "calc_loop ar (session_start_time s) None rs = (e, rs)"
    using loop by (rule calc_loop_again) simp
  have "length rs = length (interactions s)"
    using loop by (rule calc_loop_length)
  with False have ne: "rs \<noteq> []"
    by auto
  let ?s1 = "s\<lparr> interactions := rs \<rparr>"
  have first: "calculate_metrics ar s =
      (case e of Some x \<Rightarrow> Inl x
       | None \<Rightarrow> (case build_summary ar ?s1 of Inl x \<Rightarrow> Inl x | Inr summary \<Rightarrow> Inr (Some summary)), ?s1)"
    using False loop
    by (simp add: calculate_metrics_def Let_def split: option.splits sum.splits)
  have second: "calculate_metrics ar ?s1 =
      (case e of Some x \<Rightarrow> Inl x
       | None \<Rightarrow> (case build_summary ar ?s1 of Inl x \<Rightarrow> Inl x | Inr summary \<Rightarrow> Inr (Some summary)), ?s1)"
    using ne again
    by (simp add: calculate_metrics_def Let_def split: option.splits sum.splits)
  from first second show ?thesis
    by simp
qed

subsection \<open>A session that was never started\<close>

lemma py_sub_None: "py_sub ar a PNone = Inl TypeError"
  by (cases a) simp_all

lemma wait_expr_unstarted: "\<exists>e. wait_expr ar None None r = Inl e"
  by (simp add: wait_expr_def py_sub_None split: sum.splits)

lemma wait_expr_unstarted_typed:
  "map_of r ''speech_start_time'' \<noteq> None \<Longrightarrow> wait_expr ar None None r = Inl TypeError"
  by (auto simp: wait_expr_def dict_get_def py_sub_None)

text \<open>
  Claim C9. When \<open>session_start_time\<close> is still \<open>None\<close> and at least one record is stored,
  \<open>calculate_metrics\<close> raises instead of returning: the graceful return of \<open>None\<close> is for the
  empty sequence only. When the first record holds numbers under \<open>response_start_time\<close> and
  \<open>speech_end_time\<close> and has a \<open>speech_start_time\<close>, the idle time of that record is computed
  and stored, and the exception is the \<open>TypeError\<close> of subtracting \<open>None\<close> from its
  \<open>speech_start_time\<close> in the waiting-time step; no later record is touched.
\<close>

theorem calculate_metrics_unstarted:
  assumes "session_start_time s = None"
      and "interactions s = r # rest"
  shows "(\<exists>e. fst (calculate_metrics ar s) = Inl e) \<and>
         (\<forall>a b. map_of r ''response_start_time'' = Some (Num a) \<longrightarrow>
                 map_of r ''speech_end_time'' = Some (Num b) \<longrightarrow>
                 map_of r ''speech_start_time'' \<noteq> None \<longrightarrow>
            calculate_metrics ar s =
              (Inl TypeError,
               s\<lparr> interactions :=
                   dict_set ''agent_idle_time_per_question''
                     (Num (num_round ar (num_sub ar a b) 3)) r
                   # rest \<rparr>))"
proof (intro conjI allI impI)
  show "\<exists>e. fst (calculate_metrics ar s) = Inl e"
  proof (cases "idle_expr ar r")
    case (Inl x)
    with assms show ?thesis
      by (simp add: calculate_metrics_def)
  next
    case (Inr idle)
    obtain x where "wait_expr ar None None (dict_set ''agent_idle_time_per_question'' idle r) = Inl x"
      using wait_expr_unstarted by blast
    with Inr assms show ?thesis
      by (simp add: calculate_metrics_def Let_def)
  qed
next
  fix a b
  assume a: "map_of r ''response_start_time'' = Some (Num a)"
     and b: "map_of r ''speech_end_time'' = Some (Num b)"
     and c: "map_of r ''speech_start_time'' \<noteq> None"
  let ?idle = "Num (num_round ar (num_sub ar a b) 3)"
  have idle: "idle_expr ar r = Inr ?idle"
    using a b by (simp add: idle_expr_def dict_get_def)
  have "map_of (dict_set ''agent_idle_time_per_question'' ?idle r) ''speech_start_time'' \<noteq> None"
    using c by (simp add: map_of_dict_set)
  then have "wait_expr ar None None (dict_set ''agent_idle_time_per_question'' ?idle r) = Inl TypeError"
    by (rule wait_expr_unstarted_typed)
  with idle assms show "calculate_metrics ar s =
            (Inl TypeError,
             s\<lparr> interactions := dict_set ''agent_idle_time_per_question'' ?idle r # rest \<rparr>)"
    by (simp add: calculate_metrics_def Let_def)
qed

theorem calculate_metrics_unstarted_witness:
  "session_start_time never_started = None \<and>
   interactions never_started = [turn1 @ [(''session_id'', Str ''session_20250101_120000'')]] \<and>
   map_of (turn1 @ [(''session_id'', Str ''session_20250101_120000'')]) ''response_start_time'' =
     Some (Num 1002) \<and>
   map_of (turn1 @ [(''session_id'', Str ''session_20250101_120000'')]) ''speech_end_time'' =
     Some (Num 1002) \<and>
   map_of (turn1 @ [(''session_id'', Str ''session_20250101_120000'')]) ''speech_start_time'' =
     Some (Num (2001 / 2)) \<and>
   calculate_metrics exact never_started = (Inl TypeError, never_started)"
proof -
  let ?r = "turn1 @ [(''session_id'', Str ''session_20250101_120000'')]"
  have st: "session_start_time never_started = None"
    by (simp add: never_started_eq)
  have rs: "interactions never_started = ?r # []"
    by (simp add: never_started_eq)
  have a: "map_of ?r ''response_start_time'' = Some (Num 1002)"
    by (simp add: turn1_def)
  have b: "map_of ?r ''speech_end_time'' = Some (Num 1002)"
    by (simp add: turn1_def)
  have c: "map_of ?r ''speech_start_time'' = Some (Num (2001 / 2))"
    by (simp add: turn1_def)
  have c': "map_of ?r ''speech_start_time'' \<noteq> None"
    by (simp add: turn1_def)
  have "calculate_metrics exact never_started =
      (Inl TypeError,
       never_started\<lparr> interactions :=
         [dict_set ''agent_idle_time_per_question''
            (Num (num_round exact (num_sub exact 1002 1002) 3)) ?r] \<rparr>)"
    by (rule conjunct2 [OF calculate_metrics_unstarted [OF st rs, of exact], rule_format, OF a b c'])
  moreover have "never_started\<lparr> interactions :=
         [dict_set ''agent_idle_time_per_question''
            (Num (num_round exact (num_sub exact 1002 1002) 3)) ?r] \<rparr> = never_started"
    by (simp add: never_started_eq turn1_def dict_set_def exact_def round_ndigits_def Let_def)
  ultimately show ?thesis
    using st rs a b c by simp
qed

subsection \<open>Logging an interaction\<close>

text \<open>
  Claim C8, as amended. For every dictionary and every recorder state, \<open>log_interaction\<close>
  appends the dictionary, stamped with the recorder's \<open>session_id\<close> and otherwise as it was
  given, at the end of the interaction sequence and leaves the records stored before, the
  session attributes and the files as they were. It checks no field and no order of
  timestamps; the only field it reads is \<open>interaction_id\<close>, for its log message: with that
  key present the call succeeds, without it the call raises \<open>KeyError\<close> once the record
  has been appended.
\<close>

theorem log_interaction_appends:
  "interactions (snd (log_interaction d s)) =
     interactions s @ [dict_set ''session_id'' (Str (session_id s)) d] \<and>
   map_of (dict_set ''session_id'' (Str (session_id s)) d) =
     (map_of d)(''session_id'' \<mapsto> Str (session_id s)) \<and>
   session_id (snd (log_interaction d s)) = session_id s \<and>
   session_start_time (snd (log_interaction d s)) = session_start_time s \<and>
   session_end_time (snd (log_interaction d s)) = session_end_time s \<and>
   files (snd (log_interaction d s)) = files s \<and>
   fst (log_interaction d s) =
     (if map_of d ''interaction_id'' = None then Inl (KeyError ''interaction_id'') else Inr ())"
  by (auto simp: log_interaction_def Let_def dict_get_def dict_set_def update_conv'
        split: sum.splits option.splits)

theorem log_interaction_counterexample:
  "log_interaction turn_without_id started =
     (Inl (KeyError ''interaction_id''),
      \<lparr> session_start_time = Some 1000, session_end_time = None,
        interactions = [turn_without_id @ [(''session_id'', Str ''session_20250101_120000'')]],
        session_id = ''session_20250101_120000'',
        log = [(INFO, ''[Metrics] Session started: '', Some (Str ''session_20250101_120000''))],
        files = [] \<rparr>)"
  by (simp add: started_eq log_interaction_def dict_set_def dict_get_def turn_without_id_def)

subsection \<open>The CSV export\<close>

lemma writerows_takeWhile:
  "writerows names written rs =
     (if \<forall>r\<in>set rs. \<forall>k\<in>set (map fst r). k \<in> set names then None else Some ValueError,
      written @ map (\<lambda>r. map (\<lambda>k. case map_of r k of None \<Rightarrow> Str [] | Some v \<Rightarrow> v) names)
                  (takeWhile (\<lambda>r. \<forall>k\<in>set (map fst r). k \<in> set names) rs))"
proof (induction rs arbitrary: written)
  case Nil
  then show ?case by simp
next
  case (Cons r rs)
  show ?case
  proof (cases "\<forall>k\<in>set (map fst r). k \<in> set names")
    case True
    then have "dict_to_list names r =
        Inr (map (\<lambda>k. case map_of r k of None \<Rightarrow> Str [] | Some v \<Rightarrow> v) names)"
      by (auto simp: dict_to_list_def)
    with True Cons.IH show ?thesis
      by simp
  next
    case False
    then have "dict_to_list names r = Inl ValueError"
      by (auto simp: dict_to_list_def)
    with False show ?thesis
      by auto
  qed
qed

lemma csv_path_eq: "csv_path s = ''logs/voice_agent_metrics_'' @ session_id s @ ''.csv''"
  by (simp add: csv_path_def path_join_def logs_dir_def)

lemma json_path_eq: "json_path s = ''logs/voice_agent_metrics_'' @ session_id s @ ''.json''"
  by (simp add: json_path_def path_join_def logs_dir_def)

text \<open>
  Claim C7, as amended. On a recorder with at least one record, every record having no key
  outside the eleven columns, \<open>save_csv\<close> writes to \<open>logs/voice_agent_metrics_<session_id>.csv\<close> the header
  \<open>session_id, timestamp, interaction_id, speech_start_time, speech_end_time,
  response_start_time, agent_response_end_time, user_speaking_time, agent_reply_time,
  user_response_waiting_time, agent_idle_time_per_question\<close> and one row per record, in the order
  of the records, holding the record's values in that column order (the empty string for a
  key the record lacks), logs the path and returns it. On a recorder with no record it writes
  nothing, logs a warning and returns \<open>None\<close>. On a recorder where some record has a key
  outside the eleven columns it raises \<open>ValueError\<close>, leaving in the file the header and
  the rows of the records before the first such record, and logs nothing.
\<close>

theorem save_csv_rows:
  "(interactions s = [] \<longrightarrow>
      save_csv s =
        (Inr None,
         s\<lparr> log := log s @ [(WARNING, ''[Metrics] No interactions to save to CSV'', None)] \<rparr>)) \<and>
   (interactions s \<noteq> [] \<and> (\<forall>r\<in>set (interactions s). \<forall>k\<in>set (map fst r). k \<in> set fieldnames) \<longrightarrow>
      save_csv s =
        (Inr (Some (''logs/voice_agent_metrics_'' @ session_id s @ ''.csv'')),
         s\<lparr> files :=
              AList.update (''logs/voice_agent_metrics_'' @ session_id s @ ''.csv'')
                (CsvFile
                   [''session_id'', ''timestamp'', ''interaction_id'', ''speech_start_time'',
                    ''speech_end_time'', ''response_start_time'', ''agent_response_end_time'',
                    ''user_speaking_time'', ''agent_reply_time'', ''user_response_waiting_time'',
                    ''agent_idle_time_per_question'']
                   (map (\<lambda>r. map (\<lambda>k. case map_of r k of None \<Rightarrow> Str [] | Some v \<Rightarrow> v)
                      [''session_id'', ''timestamp'', ''interaction_id'', ''speech_start_time'',
                       ''speech_end_time'', ''response_start_time'', ''agent_response_end_time'',
                       ''user_speaking_time'', ''agent_reply_time'', ''user_response_waiting_time'',
                       ''agent_idle_time_per_question''])
                      (interactions s)))
                (files s),
            log := log s @
              [(INFO, ''[Metrics] CSV saved: '',
                Some (Str (''logs/voice_agent_metrics_'' @ session_id s @ ''.csv'')))] \<rparr>)) \<and>
   (interactions s \<noteq> [] \<and> (\<exists>r\<in>set (interactions s). \<exists>k\<in>set (map fst r). k \<notin> set fieldnames) \<longrightarrow>
      save_csv s =
        (Inl ValueError,
         s\<lparr> files :=
              AList.update (''logs/voice_agent_metrics_'' @ session_id s @ ''.csv'')
                (CsvFile
                   [''session_id'', ''timestamp'', ''interaction_id'', ''speech_start_time'',
                    ''speech_end_time'', ''response_start_time'', ''agent_response_end_time'',
                    ''user_speaking_time'', ''agent_reply_time'', ''user_response_waiting_time'',
                    ''agent_idle_time_per_question'']
                   (map (\<lambda>r. map (\<lambda>k. case map_of r k of None \<Rightarrow> Str [] | Some v \<Rightarrow> v)
                      [''session_id'', ''timestamp'', ''interaction_id'', ''speech_start_time'',
                       ''speech_end_time'', ''response_start_time'', ''agent_response_end_time'',
                       ''user_speaking_time'', ''agent_reply_time'', ''user_response_waiting_time'',
                       ''agent_idle_time_per_question''])
                      (takeWhile (\<lambda>r. \<forall>k\<in>set (map fst r). k \<in> set fieldnames) (interactions s))))
                (files s) \<rparr>))"
proof (intro conjI impI)
  assume "interactions s = []"
  then show "save_csv s =
      (Inr None,
       s\<lparr> log := log s @ [(WARNING, ''[Metrics] No interactions to save to CSV'', None)] \<rparr>)"
    by (simp add: save_csv_def)
next
  assume a: "interactions s \<noteq> [] \<and>
    (\<forall>r\<in>set (interactions s). \<forall>k\<in>set (map fst r). k \<in> set fieldnames)"
  then have all: "takeWhile (\<lambda>r. \<forall>k\<in>set (map fst r). k \<in> set fieldnames) (interactions s) =
      interactions s"
    by (simp add: takeWhile_eq_all_conv)
  have "writerows fieldnames [] (interactions s) =
      (None, map (\<lambda>r. map (\<lambda>k. case map_of r k of None \<Rightarrow> Str [] | Some v \<Rightarrow> v) fieldnames)
                 (interactions s))"
    using writerows_takeWhile [of fieldnames "[]" "interactions s"] a
    unfolding all by simp
  with a show "save_csv s =
        (Inr (Some (''logs/voice_agent_metrics_'' @ session_id s @ ''.csv'')),
         s\<lparr> files :=
              AList.update (''logs/voice_agent_metrics_'' @ session_id s @ ''.csv'')
                (CsvFile
                   [''session_id'', ''timestamp'', ''interaction_id'', ''speech_start_time'',
                    ''speech_end_time'', ''response_start_time'', ''agent_response_end_time'',
                    ''user_speaking_time'', ''agent_reply_time'', ''user_response_waiting_time'',
                    ''agent_idle_time_per_question'']
                   (map (\<lambda>r. map (\<lambda>k. case map_of r k of None \<Rightarrow> Str [] | Some v \<Rightarrow> v)
                      [''session_id'', ''timestamp'', ''interaction_id'', ''speech_start_time'',
                       ''speech_end_time'', ''response_start_time'', ''agent_response_end_time'',
                       ''user_speaking_time'', ''agent_reply_time'', ''user_response_waiting_time'',
                       ''agent_idle_time_per_question''])
                      (interactions s)))
                (files s),
            log := log s @
              [(INFO, ''[Metrics] CSV saved: '',
                Some (Str (''logs/voice_agent_metrics_'' @ session_id s @ ''.csv'')))] \<rparr>)"
    by (simp add: save_csv_def csv_path_eq Let_def fieldnames_def)
next
  assume a: "interactions s \<noteq> [] \<and>
    (\<exists>r\<in>set (interactions s). \<exists>k\<in>set (map fst r). k \<notin> set fieldnames)"
  then have "\<not> (\<forall>r\<in>set (interactions s). \<forall>k\<in>set (map fst r). k \<in> set fieldnames)"
    by blast
  then have "writerows fieldnames [] (interactions s) =
      (Some ValueError,
       map (\<lambda>r. map (\<lambda>k. case map_of r k of None \<Rightarrow> Str [] | Some v \<Rightarrow> v) fieldnames)
         (takeWhile (\<lambda>r. \<forall>k\<in>set (map fst r). k \<in> set fieldnames) (interactions s)))"
    by (simp add: writerows_takeWhile [of fieldnames "[]" "interactions s"])
  with a show "save_csv s =
        (Inl ValueError,
         s\<lparr> files :=
              AList.update (''logs/voice_agent_metrics_'' @ session_id s @ ''.csv'')
                (CsvFile
                   [''session_id'', ''timestamp'', ''interaction_id'', ''speech_start_time'',
                    ''speech_end_time'', ''response_start_time'', ''agent_response_end_time'',
                    ''user_speaking_time'', ''agent_reply_time'', ''user_response_waiting_time'',
                    ''agent_idle_time_per_question'']
                   (map (\<lambda>r. map (\<lambda>k. case map_of r k of None \<Rightarrow> Str [] | Some v \<Rightarrow> v)
                      [''session_id'', ''timestamp'', ''interaction_id'', ''speech_start_time'',
                       ''speech_end_time'', ''response_start_time'', ''agent_response_end_time'',
                       ''user_speaking_time'', ''agent_reply_time'', ''user_response_waiting_time'',
                       ''agent_idle_time_per_question''])
                      (takeWhile (\<lambda>r. \<forall>k\<in>set (map fst r). k \<in> set fieldnames) (interactions s))))
                (files s) \<rparr>)"
    by (simp add: save_csv_def csv_path_eq Let_def fieldnames_def)
qed

lemma ended_known_keys:
  "list_all (\<lambda>r. list_all (\<lambda>k. k \<in> set fieldnames) (map fst r)) (interactions ended)"
  by (simp add: ended_eq turn1_def turn2_def fieldnames_def)

lemma extra_key_eq:
  "extra_key =
     \<lparr> session_start_time = Some 1000, session_end_time = None,
       interactions =
         [turn1 @ [(''note'', Str ''callback requested''),
                   (''session_id'', Str ''session_20250101_120000'')]],
       session_id = ''session_20250101_120000'',
       log = [(INFO, ''[Metrics] Session started: '', Some (Str ''session_20250101_120000'')),
              (INFO, ''[Metrics] Logged interaction: '', Some (Str ''call_1''))],
       files = [] \<rparr>"
  by (simp add: extra_key_def started_eq log_interaction_def dict_set_def dict_get_def turn1_def)

theorem save_csv_rows_witness:
  "interactions started = [] \<and>
   save_csv started =
     (Inr None,
      started\<lparr> log := log started @ [(WARNING, ''[Metrics] No interactions to save to CSV'', None)] \<rparr>) \<and>
   interactions ended \<noteq> [] \<and>
   list_all (\<lambda>r. list_all (\<lambda>k. k \<in> set fieldnames) (map fst r)) (interactions ended) \<and>
   fst (save_csv ended) = Inr (Some ''logs/voice_agent_metrics_session_20250101_120000.csv'') \<and>
   files (snd (save_csv ended)) =
     [(''logs/voice_agent_metrics_session_20250101_120000.csv'',
       CsvFile
         [''session_id'', ''timestamp'', ''interaction_id'', ''speech_start_time'',
          ''speech_end_time'', ''response_start_time'', ''agent_response_end_time'',
          ''user_speaking_time'', ''agent_reply_time'', ''user_response_waiting_time'',
          ''agent_idle_time_per_question'']
         [[Str ''session_20250101_120000'', Str ''2025-01-01T12:00:04'', Str ''call_1'',
           Num (2001 / 2), Num 1002, Num 1002, Num 1004, Num (3 / 2), Num 2, Num 0, Num 0],
          [Str ''session_20250101_120000'', Str ''2025-01-01T12:00:13'', Str ''call_2'',
           Num 1010, Num 1011, Num (2023 / 2), Num 1013, Num 1, Num (3 / 2), Num 0, Num 0]])] \<and>
   interactions extra_key \<noteq> [] \<and>
   list_ex (\<lambda>r. list_ex (\<lambda>k. k \<notin> set fieldnames) (map fst r)) (interactions extra_key) \<and>
   save_csv extra_key =
     (Inl ValueError,
      extra_key\<lparr> files :=
        [(''logs/voice_agent_metrics_session_20250101_120000.csv'',
          CsvFile
            [''session_id'', ''timestamp'', ''interaction_id'', ''speech_start_time'',
             ''speech_end_time'', ''response_start_time'', ''agent_response_end_time'',
             ''user_speaking_time'', ''agent_reply_time'', ''user_response_waiting_time'',
             ''agent_idle_time_per_question''] [])] \<rparr>)"
proof -
  have e: "interactions started = []"
    by (simp add: started_eq)
  have ne: "interactions ended \<noteq> []"
    by (simp add: ended_eq)
  have keys: "\<forall>r\<in>set (interactions ended). \<forall>k\<in>set (map fst r). k \<in> set fieldnames"
    using ended_known_keys by (simp add: list_all_iff)
  have xne: "interactions extra_key \<noteq> []"
    by (simp add: extra_key_eq)
  have xk: "list_ex (\<lambda>r. list_ex (\<lambda>k. k \<notin> set fieldnames) (map fst r)) (interactions extra_key)"
    by (simp add: extra_key_eq turn1_def fieldnames_def)
  then have xkeys: "\<exists>r\<in>set (interactions extra_key). \<exists>k\<in>set (map fst r). k \<notin> set fieldnames"
    by (simp add: list_ex_iff)
  have empty_case: "save_csv started =
     (Inr None,
      started\<lparr> log := log started @ [(WARNING, ''[Metrics] No interactions to save to CSV'', None)] \<rparr>)"
    using save_csv_rows [of started] e by blast
  have "save_csv ended =
        (Inr (Some (''logs/voice_agent_metrics_'' @ session_id ended @ ''.csv'')),
         ended\<lparr> files :=
              AList.update (''logs/voice_agent_metrics_'' @ session_id ended @ ''.csv'')
                (CsvFile
                   [''session_id'', ''timestamp'', ''interaction_id'', ''speech_start_time'',
                    ''speech_end_time'', ''response_start_time'', ''agent_response_end_time'',
                    ''user_speaking_time'', ''agent_reply_time'', ''user_response_waiting_time'',
                    ''agent_idle_time_per_question'']
                   (map (\<lambda>r. map (\<lambda>k. case map_of r k of None \<Rightarrow> Str [] | Some v \<Rightarrow> v)
                      [''session_id'', ''timestamp'', ''interaction_id'', ''speech_start_time'',
                       ''speech_end_time'', ''response_start_time'', ''agent_response_end_time'',
                       ''user_speaking_time'', ''agent_reply_time'', ''user_response_waiting_time'',
                       ''agent_idle_time_per_question''])
                      (interactions ended)))
                (files ended),
            log := log ended @
              [(INFO, ''[Metrics] CSV saved: '',
                Some (Str (''logs/voice_agent_metrics_'' @ session_id ended @ ''.csv'')))] \<rparr>)"
    using save_csv_rows [of ended] ne keys by blast
  then have written: "fst (save_csv ended) =
       Inr (Some ''logs/voice_agent_metrics_session_20250101_120000.csv'') \<and>
   files (snd (save_csv ended)) =
     [(''logs/voice_agent_metrics_session_20250101_120000.csv'',
       CsvFile
         [''session_id'', ''timestamp'', ''interaction_id'', ''speech_start_time'',
          ''speech_end_time'', ''response_start_time'', ''agent_response_end_time'',
          ''user_speaking_time'', ''agent_reply_time'', ''user_response_waiting_time'',
          ''agent_idle_time_per_question'']
         [[Str ''session_20250101_120000'', Str ''2025-01-01T12:00:04'', Str ''call_1'',
           Num (2001 / 2), Num 1002, Num 1002, Num 1004, Num (3 / 2), Num 2, Num 0, Num 0],
          [Str ''session_20250101_120000'', Str ''2025-01-01T12:00:13'', Str ''call_2'',
           Num 1010, Num 1011, Num (2023 / 2), Num 1013, Num 1, Num (3 / 2), Num 0, Num 0]])]"
    by (simp add: ended_eq turn1_def turn2_def)
  have "save_csv extra_key =
        (Inl ValueError,
         extra_key\<lparr> files :=
              AList.update (''logs/voice_agent_metrics_'' @ session_id extra_key @ ''.csv'')
                (CsvFile
                   [''session_id'', ''timestamp'', ''interaction_id'', ''speech_start_time'',
                    ''speech_end_time'', ''response_start_time'', ''agent_response_end_time'',
                    ''user_speaking_time'', ''agent_reply_time'', ''user_response_waiting_time'',
                    ''agent_idle_time_per_question'']
                   (map (\<lambda>r. map (\<lambda>k. case map_of r k of None \<Rightarrow> Str [] | Some v \<Rightarrow> v)
                      [''session_id'', ''timestamp'', ''interaction_id'', ''speech_start_time'',
                       ''speech_end_time'', ''response_start_time'', ''agent_response_end_time'',
                       ''user_speaking_time'', ''agent_reply_time'', ''user_response_waiting_time'',
                       ''agent_idle_time_per_question''])
                      (takeWhile (\<lambda>r. \<forall>k\<in>set (map fst r). k \<in> set fieldnames)
                         (interactions extra_key))))
                (files extra_key) \<rparr>)"
    using save_csv_rows [of extra_key] xne xkeys by blast
  then have refused: "save_csv extra_key =
     (Inl ValueError,
      extra_key\<lparr> files :=
        [(''logs/voice_agent_metrics_session_20250101_120000.csv'',
          CsvFile
            [''session_id'', ''timestamp'', ''interaction_id'', ''speech_start_time'',
             ''speech_end_time'', ''response_start_time'', ''agent_response_end_time'',
             ''user_speaking_time'', ''agent_reply_time'', ''user_response_waiting_time'',
             ''agent_idle_time_per_question''] [])] \<rparr>)"
    by (simp add: extra_key_eq turn1_def fieldnames_def)
  from e empty_case ne ended_known_keys written xne xk refused show ?thesis
    by simp
qed

text \<open>
  The claim as written, for every recorder with at least one record, fails on a record that
  has one more key than the eleven columns: \<open>csv.DictWriter\<close> refuses it, so \<open>save_csv\<close>
  raises \<open>ValueError\<close> and leaves a file with the header and no row.
\<close>

theorem save_csv_extra_key_counterexample:
  "interactions extra_key =
     [turn1 @ [(''note'', Str ''callback requested''),
               (''session_id'', Str ''session_20250101_120000'')]] \<and>
   fst (save_csv extra_key) = Inl ValueError \<and>
   files (snd (save_csv extra_key)) =
     [(''logs/voice_agent_metrics_session_20250101_120000.csv'',
       CsvFile
         [''session_id'', ''timestamp'', ''interaction_id'', ''speech_start_time'',
          ''speech_end_time'', ''response_start_time'', ''agent_response_end_time'',
          ''user_speaking_time'', ''agent_reply_time'', ''user_response_waiting_time'',
          ''agent_idle_time_per_question''] [])]"
  by (simp add: extra_key_eq turn1_def save_csv_def dict_to_list_def fieldnames_def
        csv_path_eq Let_def)

subsection \<open>The two exports side by side\<close>

text \<open>
  Claim C3 at the session of two turns, exported as \<open>Assistant.end_call\<close> does it, \<open>save_csv\<close>
  first and \<open>save_json\<close> second, with no call of \<open>calculate_metrics\<close> before. \<open>save_csv\<close>
  writes the records as they are stored, so the two derived columns of the CSV file hold the
  placeholders \<open>0\<close>; \<open>save_json\<close> recomputes first, so the JSON file holds the waiting times
  \<open>0.5\<close> and \<open>6\<close> and the idle times \<open>0\<close> and \<open>0.5\<close>.
\<close>

theorem exports_after_end_call:
  "files (snd (save_json exact (snd (save_csv ended)))) =
     [(''logs/voice_agent_metrics_session_20250101_120000.csv'',
       CsvFile
         [''session_id'', ''timestamp'', ''interaction_id'', ''speech_start_time'',
          ''speech_end_time'', ''response_start_time'', ''agent_response_end_time'',
          ''user_speaking_time'', ''agent_reply_time'', ''user_response_waiting_time'',
          ''agent_idle_time_per_question'']
         [[Str ''session_20250101_120000'', Str ''2025-01-01T12:00:04'', Str ''call_1'',
           Num (2001 / 2), Num 1002, Num 1002, Num 1004, Num (3 / 2), Num 2, Num 0, Num 0],
          [Str ''session_20250101_120000'', Str ''2025-01-01T12:00:13'', Str ''call_2'',
           Num 1010, Num 1011, Num (2023 / 2), Num 1013, Num 1, Num (3 / 2), Num 0, Num 0]]),
      (''logs/voice_agent_metrics_session_20250101_120000.json'',
       JsonFile
         (Some
           [(''session_id'', Str ''session_20250101_120000''),
            (''total_questions'', Num 2),
            (''total_user_speaking_time'', Num (5 / 2)),
            (''average_user_speaking_time'', Num (5 / 4)),
            (''total_agent_reply_time'', Num (7 / 2)),
            (''average_agent_reply_time'', Num (7 / 4)),
            (''total_agent_idle_time'', Num (1 / 2)),
            (''average_agent_idle_time'', Num (1 / 4)),
            (''total_voice_agent_response_time_during_start_end_call'', Num 20),
            (''session_start_time'', Num 1000),
            (''session_end_time'', Num 1020)])
         [[(''timestamp'', Str ''2025-01-01T12:00:04''), (''interaction_id'', Str ''call_1''),
           (''speech_start_time'', Num (2001 / 2)), (''speech_end_time'', Num 1002),
           (''response_start_time'', Num 1002), (''agent_response_end_time'', Num 1004),
           (''user_speaking_time'', Num (3 / 2)), (''agent_reply_time'', Num 2),
           (''user_response_waiting_time'', Num (1 / 2)),
           (''agent_idle_time_per_question'', Num 0),
           (''session_id'', Str ''session_20250101_120000'')],
          [(''timestamp'', Str ''2025-01-01T12:00:13''), (''interaction_id'', Str ''call_2''),
           (''speech_start_time'', Num 1010), (''speech_end_time'', Num 1011),
           (''response_start_time'', Num (2023 / 2)), (''agent_response_end_time'', Num 1013),
           (''user_speaking_time'', Num 1), (''agent_reply_time'', Num (3 / 2)),
           (''user_response_waiting_time'', Num 6),
           (''agent_idle_time_per_question'', Num (1 / 2)),
           (''session_id'', Str ''session_20250101_120000'')]])]"
  by (simp add: ended_eq turn1_def turn2_def save_csv_def save_json_def dict_to_list_def
        fieldnames_def csv_path_eq json_path_eq run_defs)

text \<open>
  Claim C4 at a recorder with no record. \<open>save_json\<close> has no guard of its own: the warning
  comes from \<open>calculate_metrics\<close>, whose \<open>None\<close> becomes the \<open>session_info\<close> of a document that
  is written all the same, and the path of that file is returned, not \<open>None\<close>.
\<close>

theorem save_json_empty_session:
  "interactions started = [] \<and>
   save_json exact started =
     (Inr (Some ''logs/voice_agent_metrics_session_20250101_120000.json''),
      \<lparr> session_start_time = Some 1000, session_end_time = None, interactions = [],
        session_id = ''session_20250101_120000'',
        log = [(INFO, ''[Metrics] Session started: '', Some (Str ''session_20250101_120000'')),
               (WARNING, ''[Metrics] No interactions recorded'', None),
               (INFO, ''[Metrics] JSON saved: '',
                Some (Str ''logs/voice_agent_metrics_session_20250101_120000.json''))],
        files = [(''logs/voice_agent_metrics_session_20250101_120000.json'', JsonFile None [])] \<rparr>)"
  by (simp add: started_eq save_json_def calculate_metrics_def json_path_eq Let_def)

end
